theory Spec2Isabelle
  imports Main
begin

section \<open>Values, exceptions and the outside world\<close>

text \<open>
  The development embeds \<^verbatim>\<open>src/Metatrader/start.py\<close>: the download manager
  (\<^verbatim>\<open>MT5Installer.download_file\<close> and its helpers), the process supervisor
  (\<^verbatim>\<open>run_command\<close>, \<^verbatim>\<open>cleanup\<close>) and the installation step
  \<^verbatim>\<open>install_mt5\<close>.

  File contents are byte strings, a path is the list of its components
  (\<^verbatim>\<open>/config/.cache\<close> is \<open>[''config'', ''.cache'']\<close>). Every Python
  exception the modelled code can meet is a value of \<open>exn\<close>; all of them are
  subclasses of Python's \<^verbatim>\<open>Exception\<close>.
\<close>

type_synonym bytes = string
type_synonym path = "string list"

datatype exn =
    FileNotFoundError path
  | FileExistsError path
  | JSONDecodeError
  | ValueError
  | TypeError
  | AttributeError string
  | ConnectionError
  | HTTPError nat
  | ChunkedEncodingError
  | CalledProcessError "string list" int
  | TimeoutExpired
  | OSError nat

text \<open>What \<^verbatim>\<open>json.load\<close> can return (numbers are kept integral).\<close>

datatype json =
    JNull
  | JBool bool
  | JNum int
  | JStr string
  | JArr "json list"
  | JObj "(string \<times> json) list"

text \<open>
  A \<^verbatim>\<open>datetime\<close>: microseconds on the clock, and whether the value carries a
  time zone (\<^verbatim>\<open>datetime.now()\<close> never does; \<^verbatim>\<open>fromisoformat\<close> may
  return one that does).
\<close>

record datetime =
  micros :: int
  tz_aware :: bool

text \<open>
  The standard-library functions the code calls and the repository does not define
  are parameters of the model: \<^verbatim>\<open>hashlib.md5(..).hexdigest()\<close>,
  \<^verbatim>\<open>hashlib.sha256\<close> (of the bytes fed to it so far), \<^verbatim>\<open>json.load\<close>
  (\<open>None\<close> when it raises), \<^verbatim>\<open>json.dump\<close>,
  \<^verbatim>\<open>datetime.fromisoformat\<close> (\<open>None\<close> when it raises
  \<^verbatim>\<open>ValueError\<close>) and \<^verbatim>\<open>datetime.isoformat\<close>.
\<close>

record lib =
  md5_hexdigest :: "string \<Rightarrow> string"
  sha256_hexdigest :: "bytes \<Rightarrow> string"
  json_loads :: "bytes \<Rightarrow> json option"
  json_dumps :: "json \<Rightarrow> bytes"
  fromisoformat :: "string \<Rightarrow> datetime option"
  isoformat :: "datetime \<Rightarrow> string"

text \<open>
  The settings object. \<open>wine_version\<close> is \<open>None\<close> when the object has no such
  attribute (reading it then raises \<^verbatim>\<open>AttributeError\<close>).
\<close>

record settings =
  wine_prefix :: path
  mt5_port :: int
  log_level :: string
  max_retries :: nat
  download_timeout :: nat
  cache_enabled :: bool
  cache_ttl_days :: int
  mono_url :: string
  python_url :: string
  mt5_download_url :: string
  required_packages :: "string list"
  wine_version :: "string option"

text \<open>
  \<^verbatim>\<open>class DefaultSettings\<close> (lines 28-47), used when \<^verbatim>\<open>config.py\<close> is
  absent. Its first three fields come from the process environment; the arguments are
  the values read there (\<^verbatim>\<open>/config/.wine\<close>, \<^verbatim>\<open>8001\<close> and
  \<^verbatim>\<open>INFO\<close> when the variables are unset). The class defines no
  \<^verbatim>\<open>wine_version\<close>.
\<close>

definition DefaultSettings :: "path \<Rightarrow> int \<Rightarrow> string \<Rightarrow> settings" where
  "DefaultSettings prefix port level =
     \<lparr> wine_prefix = prefix,
       mt5_port = port,
       log_level = level,
       max_retries = 3,
       download_timeout = 300,
       cache_enabled = True,
       cache_ttl_days = 7,
       mono_url = ''https://dl.winehq.org/wine/wine-mono/8.0.0/wine-mono-8.0.0-x86.msi'',
       python_url = ''https://www.python.org/ftp/python/3.9.0/python-3.9.0.exe'',
       mt5_download_url = ''https://download.mql5.com/cdn/web/metaquotes.ltd/mt5/mt5setup.exe'',
       required_packages = [''MetaTrader5==5.0.36'', ''mt5linux'', ''pyxdg''],
       wine_version = None \<rparr>"

text \<open>\<^verbatim>\<open>KNOWN_CHECKSUMS\<close> (lines 57-60).\<close>

definition KNOWN_CHECKSUMS :: "(string \<times> string) list" where
  "KNOWN_CHECKSUMS =
     [(''wine-mono-8.0.0-x86.msi'',
         ''3f7b1cd6b7842c09142082e50ece97abe848a033a0838f029c35ce973926c275''),
      (''python-3.9.0.exe'',
         ''fd2e4c52fb5a0f6c0d7f8c31131a21c57b0728d9e8b3ed7c207ceea8f1078918'')]"

subsection \<open>The network\<close>

text \<open>
  What \<^verbatim>\<open>session.get(url, stream=True, timeout=..)\<close> gives once the transport's
  own retries are over: no response at all (the call raises), or a response with a
  status code, a \<^verbatim>\<open>content-length\<close> header and a body. The body is what
  \<^verbatim>\<open>iter_content\<close> yields, interleaved with the moments at which a
  \<^verbatim>\<open>SIGINT\<close>/\<^verbatim>\<open>SIGTERM\<close> reaches the process (the handler of
  \<^verbatim>\<open>GracefulKiller\<close> then sets \<^verbatim>\<open>kill_now\<close>) and possibly cut
  short by a transport error.
\<close>

datatype body_event = Chunk bytes | Signal | Broken

datatype content_length = NoLength | Length int | BadLength

datatype http_result =
    ConnFailed
  | Response nat content_length "body_event list"

subsection \<open>Processes\<close>

text \<open>
  A child process: when it exits on its own (\<open>None\<close>: never), how long it takes to
  exit once it has received \<^verbatim>\<open>SIGTERM\<close> (\<open>None\<close>: it ignores the signal),
  when it received \<^verbatim>\<open>SIGTERM\<close> first, and whether it was killed. Times are in
  microseconds.
\<close>

record proc =
  exit_at :: "int option"
  term_delay :: "int option"
  termed_at :: "int option"
  killed :: bool

text \<open>The result of a foreground \<^verbatim>\<open>subprocess.run\<close>.\<close>

record completed =
  returncode :: int
  stdout :: string
  stderr :: string

subsection \<open>Observable actions\<close>

datatype event =
    FsStat path
  | FsRead path
  | FsCreate path
  | FsWrite path bytes
  | FsUnlink path
  | FsRename path path
  | FsLink path path
  | HttpGet string nat
  | ProcRun "string list"
  | ProcSpawn nat "string list"
  | ProcPoll nat
  | ProcTerminate nat
  | ProcWait nat int
  | ProcKill nat
  | Sleep int

subsection \<open>The world\<close>

text \<open>
  The state the program runs in. The file system holds regular files, and every
  access is permitted: a directory maps a path to an inode, an inode holds the bytes,
  and two paths with one inode are hard links of one file. \<open>device\<close> tells on
  which mounted file system the directory of a path lies, \<open>None\<close> when there is
  no such directory; a file is renamed or hard-linked only within one file system. A
  file that is opened for writing is taken to lie in a directory that exists.
  \<open>kill_now\<close> is the flag of
  \<^verbatim>\<open>GracefulKiller\<close>, \<open>processes\<close> the list \<^verbatim>\<open>self.processes\<close>
  (by process id). \<open>net\<close>, \<open>spawn_env\<close> and \<open>run_env\<close> are the environment's
  answers: the response to a GET, the behaviour of a process started from a command
  (\<open>None\<close>: \<^verbatim>\<open>Popen\<close> raises), and the result of running a command to its
  end. \<open>signal_at\<close> is the time at which a termination signal will arrive.
  \<open>trace\<close> records every action taken, in order.
\<close>

record world =
  dirents :: "path \<rightharpoonup> nat"
  idata :: "nat \<Rightarrow> bytes"
  next_ino :: nat
  device :: "path \<Rightarrow> nat option"
  kill_now :: bool
  clock :: int
  signal_at :: "int option"
  net :: "string \<Rightarrow> http_result"
  procs :: "nat \<rightharpoonup> proc"
  next_pid :: nat
  processes :: "nat list"
  spawn_env :: "string list \<Rightarrow> (int option \<times> int option) option"
  run_env :: "string list \<Rightarrow> completed option"
  trace :: "event list"

section \<open>Computations that may raise\<close>

text \<open>
  A Python statement sequence is a function from the world to a result (\<open>Inl\<close> an
  exception raised, \<open>Inr\<close> a value) and the world it leaves behind; effects made
  before an exception stay.
\<close>

type_synonym 'a io = "world \<Rightarrow> (exn + 'a) \<times> world"

definition unit_io :: "'a \<Rightarrow> 'a io" where
  "unit_io x = (\<lambda>w. (Inr x, w))"

definition raise_io :: "exn \<Rightarrow> 'a io" where
  "raise_io e = (\<lambda>w. (Inl e, w))"

definition bind_io :: "'a io \<Rightarrow> ('a \<Rightarrow> 'b io) \<Rightarrow> 'b io" where
  "bind_io m f = (\<lambda>w. case m w of (Inl e, w') \<Rightarrow> (Inl e, w') | (Inr x, w') \<Rightarrow> f x w')"

definition emit :: "event \<Rightarrow> world \<Rightarrow> world" where
  "emit e w = w\<lparr>trace := trace w @ [e]\<rparr>"

section \<open>File-system calls\<close>

text \<open>\<^verbatim>\<open>Path.exists()\<close>.\<close>

definition fs_exists :: "path \<Rightarrow> bool io" where
  "fs_exists p = (\<lambda>w. (Inr (dirents w p \<noteq> None), emit (FsStat p) w))"

text \<open>Reading a whole file (\<^verbatim>\<open>open(p, 'r')\<close> or \<^verbatim>\<open>'rb'\<close>).\<close>

definition fs_read :: "path \<Rightarrow> bytes io" where
  "fs_read p = (\<lambda>w. case dirents w p of
       None \<Rightarrow> (Inl (FileNotFoundError p), emit (FsRead p) w)
     | Some i \<Rightarrow> (Inr (idata w i), emit (FsRead p) w))"

text \<open>
  \<^verbatim>\<open>open(p, 'wb')\<close> (or \<^verbatim>\<open>'w'\<close>): an existing file is truncated in
  place, so every hard link of it sees the empty file; otherwise a new file is
  created. The result is the inode opened.
\<close>

definition fs_create :: "path \<Rightarrow> nat io" where
  "fs_create p = (\<lambda>w. case dirents w p of
       Some i \<Rightarrow> (Inr i, emit (FsCreate p) (w\<lparr>idata := (idata w)(i := [])\<rparr>))
     | None \<Rightarrow>
         (Inr (next_ino w),
          emit (FsCreate p)
            (w\<lparr>dirents := (dirents w)(p \<mapsto> next_ino w),
               idata := (idata w)(next_ino w := []),
               next_ino := Suc (next_ino w)\<rparr>)))"

text \<open>\<^verbatim>\<open>f.write(data)\<close> on a file opened at \<open>p\<close> with inode \<open>i\<close>.\<close>

definition fs_write :: "path \<Rightarrow> nat \<Rightarrow> bytes \<Rightarrow> unit io" where
  "fs_write p i data = (\<lambda>w.
     (Inr (), emit (FsWrite p data) (w\<lparr>idata := (idata w)(i := idata w i @ data)\<rparr>)))"

text \<open>\<^verbatim>\<open>Path.unlink()\<close>.\<close>

definition fs_unlink :: "path \<Rightarrow> unit io" where
  "fs_unlink p = (\<lambda>w. case dirents w p of
       None \<Rightarrow> (Inl (FileNotFoundError p), emit (FsUnlink p) w)
     | Some i \<Rightarrow> (Inr (), emit (FsUnlink p) (w\<lparr>dirents := (dirents w)(p := None)\<rparr>)))"

text \<open>
  \<^verbatim>\<open>src.rename(dst)\<close>, that is \<^verbatim>\<open>rename(2)\<close>. The call raises
  \<^verbatim>\<open>FileNotFoundError\<close> when \<open>src\<close> does not exist or the directory of
  \<open>dst\<close> is missing, and \<^verbatim>\<open>OSError\<close> with \<^verbatim>\<open>EXDEV\<close> (18) when
  the two paths lie on different file systems. Otherwise \<open>dst\<close> is replaced, and
  when \<open>src\<close> and \<open>dst\<close> already name the same file nothing happens.
\<close>

definition fs_rename :: "path \<Rightarrow> path \<Rightarrow> unit io" where
  "fs_rename src dst = (\<lambda>w. case dirents w src of
       None \<Rightarrow> (Inl (FileNotFoundError src), emit (FsRename src dst) w)
     | Some i \<Rightarrow>
         (case device w dst of
            None \<Rightarrow> (Inl (FileNotFoundError dst), emit (FsRename src dst) w)
          | Some d \<Rightarrow>
              if device w src \<noteq> Some d then (Inl (OSError 18), emit (FsRename src dst) w)
              else if dirents w dst = Some i then (Inr (), emit (FsRename src dst) w)
              else (Inr (), emit (FsRename src dst)
                      (w\<lparr>dirents := (dirents w)(dst \<mapsto> i, src := None)\<rparr>))))"

text \<open>
  \<^verbatim>\<open>src.link_to(dst)\<close> of Python 3.8 to 3.11, that is
  \<^verbatim>\<open>os.link(src, dst)\<close>: \<open>dst\<close> becomes a hard link of \<open>src\<close>. The
  call raises when \<open>src\<close> does not exist, when \<open>dst\<close> exists, when the
  directory of \<open>dst\<close> is missing, and when the two paths lie on different file
  systems.
\<close>

definition fs_link :: "path \<Rightarrow> path \<Rightarrow> unit io" where
  "fs_link src dst = (\<lambda>w. case dirents w src of
       None \<Rightarrow> (Inl (FileNotFoundError src), emit (FsLink src dst) w)
     | Some i \<Rightarrow>
         if dirents w dst \<noteq> None then (Inl (FileExistsError dst), emit (FsLink src dst) w)
         else
           (case device w dst of
              None \<Rightarrow> (Inl (FileNotFoundError dst), emit (FsLink src dst) w)
            | Some d \<Rightarrow>
                if device w src \<noteq> Some d then (Inl (OSError 18), emit (FsLink src dst) w)
                else (Inr (), emit (FsLink src dst) (w\<lparr>dirents := (dirents w)(dst \<mapsto> i)\<rparr>))))"

section \<open>Paths\<close>

text \<open>\<^verbatim>\<open>self.cache_dir = Path("/config/.cache")\<close> (line 80).\<close>

definition cache_dir :: path where
  "cache_dir = [''config'', ''.cache'']"

text \<open>\<^verbatim>\<open>Path.name\<close>: the last component, empty for the root.\<close>

definition path_name :: "path \<Rightarrow> string" where
  "path_name p = (if p = [] then [] else last p)"

text \<open>\<^verbatim>\<open>dir / name\<close> for a single component; an empty name adds nothing.\<close>

definition path_join :: "path \<Rightarrow> string \<Rightarrow> path" where
  "path_join d n = (if n = [] then d else d @ [n])"

text \<open>\<^verbatim>\<open>self.cache_dir / dest_path.name\<close> (lines 144 and 188).\<close>

definition cache_file :: "path \<Rightarrow> path" where
  "cache_file dest_path = path_join cache_dir (path_name dest_path)"

text \<open>
  \<^verbatim>\<open>self.cache_dir / f"{hashlib.md5(url.encode()).hexdigest()}.meta"\<close>
  (lines 124 and 132).
\<close>

definition cache_metadata_file :: "lib \<Rightarrow> string \<Rightarrow> path" where
  "cache_metadata_file L url = path_join cache_dir (md5_hexdigest L url @ ''.meta'')"

section \<open>Integrity verification\<close>

text \<open>
  \<^verbatim>\<open>iter(lambda: f.read(4096), b"")\<close>: the blocks of a file, up to the first
  empty read.
\<close>

function read_blocks :: "nat \<Rightarrow> bytes \<Rightarrow> bytes list" where
  "read_blocks n bs = (if n = 0 \<or> bs = [] then [] else take n bs # read_blocks n (drop n bs))"
  by pat_completeness auto
termination
  by (relation "measure (\<lambda>(n, bs). length bs)") auto

declare read_blocks.simps [simp del]

text \<open>
  \<^verbatim>\<open>_calculate_checksum\<close> (lines 98-104). A hash object is the bytes fed to it:
  \<^verbatim>\<open>update\<close> appends, \<^verbatim>\<open>hexdigest\<close> is the digest of all of them.
\<close>

definition calculate_checksum :: "lib \<Rightarrow> path \<Rightarrow> string io" where
  "calculate_checksum L file_path =
     bind_io (fs_read file_path) (\<lambda>content.
       unit_io (sha256_hexdigest L (fold (\<lambda>byte_block h. h @ byte_block) (read_blocks 4096 content) [])))"

text \<open>
  \<^verbatim>\<open>_verify_checksum\<close> (lines 106-120); \<^verbatim>\<open>not expected_checksum\<close> holds for
  \<^verbatim>\<open>None\<close> and for the empty string.
\<close>

definition verify_checksum :: "lib \<Rightarrow> path \<Rightarrow> string option \<Rightarrow> bool io" where
  "verify_checksum L file_path expected_checksum =
     (case expected_checksum of
        None \<Rightarrow> unit_io True
      | Some expected \<Rightarrow>
          if expected = [] then unit_io True
          else bind_io (calculate_checksum L file_path) (\<lambda>actual_checksum.
                 if actual_checksum = expected then unit_io True else unit_io False))"

section \<open>Cache metadata\<close>

text \<open>\<^verbatim>\<open>_get_cache_metadata\<close> (lines 122-128).\<close>

definition get_cache_metadata :: "lib \<Rightarrow> string \<Rightarrow> json io" where
  "get_cache_metadata L url =
     bind_io (fs_exists (cache_metadata_file L url)) (\<lambda>present.
       if present then
         bind_io (fs_read (cache_metadata_file L url)) (\<lambda>content.
           case json_loads L content of
             None \<Rightarrow> raise_io JSONDecodeError
           | Some metadata \<Rightarrow> unit_io metadata)
       else unit_io (JObj []))"

text \<open>\<^verbatim>\<open>_save_cache_metadata\<close> (lines 130-134).\<close>

definition save_cache_metadata :: "lib \<Rightarrow> string \<Rightarrow> json \<Rightarrow> unit io" where
  "save_cache_metadata L url metadata =
     bind_io (fs_create (cache_metadata_file L url)) (\<lambda>f.
       fs_write (cache_metadata_file L url) f (json_dumps L metadata))"

section \<open>The download manager\<close>

text \<open>Python's truth value of a JSON value.\<close>

definition truthy :: "json \<Rightarrow> bool" where
  "truthy j = (case j of
       JNull \<Rightarrow> False
     | JBool b \<Rightarrow> b
     | JNum n \<Rightarrow> n \<noteq> 0
     | JStr s \<Rightarrow> s \<noteq> []
     | JArr xs \<Rightarrow> xs \<noteq> []
     | JObj kvs \<Rightarrow> kvs \<noteq> [])"

text \<open>
  \<^verbatim>\<open>cache_metadata.get('timestamp', '')\<close>: only a dictionary has
  \<^verbatim>\<open>get\<close>.
\<close>

definition metadata_get :: "json \<Rightarrow> string \<Rightarrow> json \<Rightarrow> exn + json" where
  "metadata_get j key dflt = (case j of
       JObj kvs \<Rightarrow> (case map_of kvs key of None \<Rightarrow> Inr dflt | Some v \<Rightarrow> Inr v)
     | _ \<Rightarrow> Inl (AttributeError ''get''))"

text \<open>
  \<^verbatim>\<open>datetime.fromisoformat(x)\<close>: a \<^verbatim>\<open>TypeError\<close> unless \<open>x\<close> is a string,
  a \<^verbatim>\<open>ValueError\<close> when the string is not a timestamp.
\<close>

definition datetime_fromisoformat :: "lib \<Rightarrow> json \<Rightarrow> exn + datetime" where
  "datetime_fromisoformat L x = (case x of
       JStr s \<Rightarrow> (case fromisoformat L s of None \<Rightarrow> Inl ValueError | Some t \<Rightarrow> Inr t)
     | _ \<Rightarrow> Inl TypeError)"

text \<open>\<^verbatim>\<open>datetime.now()\<close>.\<close>

definition datetime_now :: "world \<Rightarrow> datetime" where
  "datetime_now w = \<lparr>micros = clock w, tz_aware = False\<rparr>"

text \<open>
  \<^verbatim>\<open>a - b\<close> on two \<^verbatim>\<open>datetime\<close>s, a \<^verbatim>\<open>timedelta\<close> in
  microseconds; mixing a value with a time zone and one without raises.
\<close>

definition datetime_sub :: "datetime \<Rightarrow> datetime \<Rightarrow> exn + int" where
  "datetime_sub a b =
     (if tz_aware a = tz_aware b then Inr (micros a - micros b) else Inl TypeError)"

text \<open>\<^verbatim>\<open>timedelta(days=d)\<close>.\<close>

definition timedelta_days :: "int \<Rightarrow> int" where
  "timedelta_days d = d * 86400000000"

text \<open>
  Lines 144-153 of \<^verbatim>\<open>download_file\<close>, after the metadata has been read: the
  result says whether the function returns \<^verbatim>\<open>True\<close> from the cache.
\<close>

definition use_cache :: "lib \<Rightarrow> path \<Rightarrow> json \<Rightarrow> bool io" where
  "use_cache L dest_path cache_metadata =
     bind_io (fs_exists (cache_file dest_path)) (\<lambda>present.
       if present \<and> truthy cache_metadata then
         (case metadata_get cache_metadata ''timestamp'' (JStr []) of
            Inl e \<Rightarrow> raise_io e
          | Inr ts \<Rightarrow>
              (case datetime_fromisoformat L ts of
                 Inl e \<Rightarrow> raise_io e
               | Inr cache_time \<Rightarrow>
                   (\<lambda>w. case datetime_sub (datetime_now w) cache_time of
                      Inl e \<Rightarrow> raise_io e w
                    | Inr age \<Rightarrow>
                        if age < timedelta_days 7 then
                          bind_io (fs_rename (cache_file dest_path) dest_path)
                            (\<lambda>_. unit_io True) w
                        else unit_io False w)))
       else unit_io False)"

text \<open>
  \<^verbatim>\<open>self.session.get(url, stream=True, timeout=..)\<close> followed by
  \<^verbatim>\<open>raise_for_status()\<close> (lines 156-161).
\<close>

definition session_get :: "string \<Rightarrow> nat \<Rightarrow> (content_length \<times> body_event list) io" where
  "session_get url timeout = (\<lambda>w. case net w url of
       ConnFailed \<Rightarrow> (Inl ConnectionError, emit (HttpGet url timeout) w)
     | Response status len body \<Rightarrow>
         if 400 \<le> status \<and> status < 600
         then (Inl (HTTPError status), emit (HttpGet url timeout) w)
         else (Inr (len, body), emit (HttpGet url timeout) w))"

text \<open>
  The loop of lines 167-178 over what \<^verbatim>\<open>iter_content\<close> yields, writing to
  the file opened at \<open>dest_path\<close>. The result is \<open>False\<close> when the loop leaves
  the function by \<^verbatim>\<open>return False\<close> (line 170), \<open>True\<close> when the body is
  exhausted. A signal that arrives sets the flag; an empty chunk is skipped after the
  flag has been looked at.
\<close>

fun write_chunks :: "path \<Rightarrow> nat \<Rightarrow> body_event list \<Rightarrow> bool io" where
  "write_chunks dest_path f [] = unit_io True"
| "write_chunks dest_path f (Signal # rest) =
     (\<lambda>w. write_chunks dest_path f rest (w\<lparr>kill_now := True\<rparr>))"
| "write_chunks dest_path f (Broken # rest) = raise_io ChunkedEncodingError"
| "write_chunks dest_path f (Chunk chunk # rest) =
     (\<lambda>w. if kill_now w then unit_io False w
          else if chunk \<noteq> [] then
            bind_io (fs_write dest_path f chunk) (\<lambda>_. write_chunks dest_path f rest) w
          else write_chunks dest_path f rest w)"

text \<open>
  Lines 155-178: the request, \<^verbatim>\<open>int(response.headers.get('content-length', 0))\<close>
  (which raises on a header that is not a number), and the streaming of the body to
  \<open>dest_path\<close>. The result is \<open>False\<close> when the function returns
  \<^verbatim>\<open>False\<close> from inside the loop.
\<close>

definition fetch_to_dest :: "settings \<Rightarrow> string \<Rightarrow> path \<Rightarrow> bool io" where
  "fetch_to_dest st url dest_path =
     bind_io (session_get url (download_timeout st)) (\<lambda>(len, body).
       case len of
         BadLength \<Rightarrow> raise_io ValueError
       | _ \<Rightarrow> bind_io (fs_create dest_path) (\<lambda>f. write_chunks dest_path f body))"

text \<open>
  \<^verbatim>\<open>expected_checksum or KNOWN_CHECKSUMS.get(filename)\<close> (line 182).
\<close>

definition resolve_expected :: "string option \<Rightarrow> path \<Rightarrow> string option" where
  "resolve_expected expected_checksum dest_path =
     (case expected_checksum of
        Some h \<Rightarrow> if h \<noteq> [] then Some h else map_of KNOWN_CHECKSUMS (path_name dest_path)
      | None \<Rightarrow> map_of KNOWN_CHECKSUMS (path_name dest_path))"

text \<open>
  Lines 180-196: verification, and on success the hard link into the cache directory
  and the metadata record.
\<close>

definition verify_and_cache :: "lib \<Rightarrow> string \<Rightarrow> path \<Rightarrow> string option \<Rightarrow> bool io" where
  "verify_and_cache L url dest_path expected_checksum =
     bind_io (verify_checksum L dest_path (resolve_expected expected_checksum dest_path))
       (\<lambda>verified.
         if \<not> verified then bind_io (fs_unlink dest_path) (\<lambda>_. unit_io False)
         else
           bind_io (fs_link dest_path (cache_file dest_path)) (\<lambda>_ w.
             bind_io (calculate_checksum L dest_path) (\<lambda>checksum.
               bind_io
                 (save_cache_metadata L url
                    (JObj [(''timestamp'', JStr (isoformat L (datetime_now w))),
                           (''checksum'', JStr checksum)]))
                 (\<lambda>_. unit_io True)) w))"

text \<open>
  How far lines 139-178 get: the function has returned a value (\<^verbatim>\<open>False\<close>
  on cancellation, \<^verbatim>\<open>True\<close> from the cache), or the body has been written
  to \<open>dest_path\<close> in full and control reaches line 180.
\<close>

datatype progress = Returned bool | Downloaded

definition try_cache_or_fetch :: "lib \<Rightarrow> settings \<Rightarrow> string \<Rightarrow> path \<Rightarrow> progress io" where
  "try_cache_or_fetch L st url dest_path = (\<lambda>w.
     if kill_now w then unit_io (Returned False) w
     else
       bind_io (get_cache_metadata L url) (\<lambda>cache_metadata.
         bind_io (use_cache L dest_path cache_metadata) (\<lambda>from_cache.
           if from_cache then unit_io (Returned True)
           else
             bind_io (fetch_to_dest st url dest_path) (\<lambda>completed.
               if completed then unit_io Downloaded else unit_io (Returned False)))) w)"

text \<open>The body of the \<^verbatim>\<open>try\<close> block of \<^verbatim>\<open>download_file\<close> (lines 139-196).\<close>

definition download_body ::
  "lib \<Rightarrow> settings \<Rightarrow> string \<Rightarrow> path \<Rightarrow> string option \<Rightarrow> bool io" where
  "download_body L st url dest_path expected_checksum =
     bind_io (try_cache_or_fetch L st url dest_path) (\<lambda>p.
       case p of
         Returned b \<Rightarrow> unit_io b
       | Downloaded \<Rightarrow> verify_and_cache L url dest_path expected_checksum)"

text \<open>
  \<^verbatim>\<open>download_file\<close> (lines 136-200): the body under
  \<^verbatim>\<open>except Exception\<close>, whose handler returns \<^verbatim>\<open>False\<close>.
\<close>

definition download_file ::
  "lib \<Rightarrow> settings \<Rightarrow> string \<Rightarrow> path \<Rightarrow> string option \<Rightarrow> bool io" where
  "download_file L st url dest_path expected_checksum = (\<lambda>w.
     case download_body L st url dest_path expected_checksum w of
       (Inl e, w') \<Rightarrow> (Inr False, w')
     | (Inr b, w') \<Rightarrow> (Inr b, w'))"

section \<open>The process supervisor\<close>

text \<open>Whether a process is still running at time \<open>t\<close>.\<close>

definition proc_alive :: "proc \<Rightarrow> int \<Rightarrow> bool" where
  "proc_alive p t =
     (\<not> killed p
      \<and> (case exit_at p of None \<Rightarrow> True | Some e \<Rightarrow> t < e)
      \<and> (case termed_at p of
           None \<Rightarrow> True
         | Some s \<Rightarrow> (case term_delay p of None \<Rightarrow> True | Some d \<Rightarrow> t < s + d)))"

definition running :: "world \<Rightarrow> nat \<Rightarrow> bool" where
  "running w pid = (case procs w pid of None \<Rightarrow> False | Some p \<Rightarrow> proc_alive p (clock w))"

text \<open>
  Time passing: the clock moves on, and a signal due by then has been handled (the
  handler sets \<^verbatim>\<open>kill_now\<close>).
\<close>

definition advance :: "int \<Rightarrow> world \<Rightarrow> world" where
  "advance d w =
     w\<lparr>clock := clock w + d,
       kill_now := (kill_now w \<or> (case signal_at w of None \<Rightarrow> False | Some s \<Rightarrow> s \<le> clock w + d))\<rparr>"

definition seconds :: "int \<Rightarrow> int" where
  "seconds n = n * 1000000"

text \<open>
  \<^verbatim>\<open>subprocess.Popen(cmd, ..)\<close>: the new process gets the next process id and
  the behaviour the environment gives the command.
\<close>

definition popen :: "string list \<Rightarrow> nat io" where
  "popen cmd = (\<lambda>w. case spawn_env w cmd of
       None \<Rightarrow> (Inl (FileNotFoundError (take 1 cmd)), emit (ProcSpawn (next_pid w) cmd) w)
     | Some (life, delay) \<Rightarrow>
         (Inr (next_pid w),
          emit (ProcSpawn (next_pid w) cmd)
            (w\<lparr>procs := (procs w)(next_pid w \<mapsto>
                   \<lparr>exit_at = map_option (\<lambda>d. clock w + d) life, term_delay = delay,
                    termed_at = None, killed = False\<rparr>),
               next_pid := Suc (next_pid w)\<rparr>)))"

text \<open>\<^verbatim>\<open>process.poll() is None\<close>.\<close>

definition proc_poll :: "nat \<Rightarrow> bool io" where
  "proc_poll pid = (\<lambda>w. (Inr (running w pid), emit (ProcPoll pid) w))"

text \<open>\<^verbatim>\<open>process.terminate()\<close>: \<^verbatim>\<open>SIGTERM\<close> to a process that still runs.\<close>

definition proc_terminate :: "nat \<Rightarrow> unit io" where
  "proc_terminate pid = (\<lambda>w. case procs w pid of
       None \<Rightarrow> (Inr (), emit (ProcTerminate pid) w)
     | Some p \<Rightarrow>
         if proc_alive p (clock w) \<and> termed_at p = None
         then (Inr (), emit (ProcTerminate pid)
                 (w\<lparr>procs := (procs w)(pid \<mapsto> p\<lparr>termed_at := Some (clock w)\<rparr>)\<rparr>))
         else (Inr (), emit (ProcTerminate pid) w))"

text \<open>\<^verbatim>\<open>process.kill()\<close>: \<^verbatim>\<open>SIGKILL\<close>.\<close>

definition proc_kill :: "nat \<Rightarrow> unit io" where
  "proc_kill pid = (\<lambda>w. case procs w pid of
       None \<Rightarrow> (Inr (), emit (ProcKill pid) w)
     | Some p \<Rightarrow> (Inr (), emit (ProcKill pid) (w\<lparr>procs := (procs w)(pid \<mapsto> p\<lparr>killed := True\<rparr>)\<rparr>)))"

text \<open>The time at which a process is gone, if it ever is without being killed.\<close>

definition exit_time :: "proc \<Rightarrow> int option" where
  "exit_time p =
     (case (exit_at p, termed_at p, term_delay p) of
        (Some e, Some s, Some d) \<Rightarrow> Some (min e (s + d))
      | (Some e, _, _) \<Rightarrow> Some e
      | (None, Some s, Some d) \<Rightarrow> Some (s + d)
      | _ \<Rightarrow> None)"

text \<open>
  \<^verbatim>\<open>process.wait(timeout=t)\<close>: returns as soon as the process is gone, raises
  \<^verbatim>\<open>TimeoutExpired\<close> after \<open>t\<close> seconds otherwise.
\<close>

definition proc_wait :: "nat \<Rightarrow> int \<Rightarrow> unit io" where
  "proc_wait pid t = (\<lambda>w.
     if \<not> running w pid then (Inr (), emit (ProcWait pid t) w)
     else
       (case (case procs w pid of None \<Rightarrow> None | Some p \<Rightarrow> exit_time p) of
          None \<Rightarrow> (Inl TimeoutExpired, advance (seconds t) (emit (ProcWait pid t) w))
        | Some e \<Rightarrow>
            if e \<le> clock w + seconds t
            then (Inr (), advance (e - clock w) (emit (ProcWait pid t) w))
            else (Inl TimeoutExpired, advance (seconds t) (emit (ProcWait pid t) w))))"

text \<open>
  \<^verbatim>\<open>subprocess.run(cmd, check=check, capture_output=True, text=True)\<close>; what the
  command does to the file system is outside the model.
\<close>

definition subprocess_run :: "string list \<Rightarrow> bool \<Rightarrow> completed io" where
  "subprocess_run cmd check = (\<lambda>w. case run_env w cmd of
       None \<Rightarrow> (Inl (FileNotFoundError (take 1 cmd)), emit (ProcRun cmd) w)
     | Some r \<Rightarrow>
         if check \<and> returncode r \<noteq> 0
         then (Inl (CalledProcessError cmd (returncode r)), emit (ProcRun cmd) w)
         else (Inr r, emit (ProcRun cmd) w))"

text \<open>
  What \<^verbatim>\<open>run_command\<close> returns: \<^verbatim>\<open>None\<close>, the \<^verbatim>\<open>Popen\<close>
  object of a background process, or the result of a foreground run.
\<close>

datatype command_result = NoResult | Handle nat | Finished completed

text \<open>
  \<^verbatim>\<open>run_command\<close> (lines 202-235). Only \<^verbatim>\<open>CalledProcessError\<close> is
  caught, and raised again when \<open>check\<close> is set.
\<close>

definition run_command :: "string list \<Rightarrow> bool \<Rightarrow> bool \<Rightarrow> command_result io" where
  "run_command cmd check background = (\<lambda>w.
     if kill_now w then unit_io NoResult w
     else if background then
       bind_io (popen cmd) (\<lambda>process w'.
         unit_io (Handle process) (w'\<lparr>processes := processes w' @ [process]\<rparr>)) w
     else
       (case subprocess_run cmd check w of
          (Inl (CalledProcessError c rc), w') \<Rightarrow>
            if check then (Inl (CalledProcessError c rc), w') else (Inr NoResult, w')
        | (Inl e, w') \<Rightarrow> (Inl e, w')
        | (Inr result, w') \<Rightarrow> (Inr (Finished result), w')))"

text \<open>The body of the loop of \<^verbatim>\<open>cleanup\<close> (lines 409-414).\<close>

definition cleanup_process :: "nat \<Rightarrow> unit io" where
  "cleanup_process process =
     bind_io (proc_poll process) (\<lambda>alive.
       if alive then
         bind_io (proc_terminate process) (\<lambda>_ w.
           case proc_wait process 5 w of
             (Inl TimeoutExpired, w') \<Rightarrow> proc_kill process w'
           | r \<Rightarrow> r)
       else unit_io ())"

fun cleanup_loop :: "nat list \<Rightarrow> unit io" where
  "cleanup_loop [] = unit_io ()"
| "cleanup_loop (process # rest) =
     bind_io (cleanup_process process) (\<lambda>_. cleanup_loop rest)"

text \<open>\<^verbatim>\<open>cleanup\<close> (lines 405-414).\<close>

definition cleanup :: "unit io" where
  "cleanup = (\<lambda>w. cleanup_loop (processes w) w)"

section \<open>Installing MetaTrader 5\<close>

definition mt5_exe :: "settings \<Rightarrow> path" where
  "mt5_exe st = wine_prefix st @ [''drive_c'', ''Program Files'', ''MetaTrader 5'', ''terminal64.exe'']"

definition mt5_installer :: path where
  "mt5_installer = [''tmp'', ''mt5setup.exe'']"

text \<open>The command of lines 273-278, for a version string \<open>v\<close>.\<close>

definition wine_reg_add :: "string \<Rightarrow> string list" where
  "wine_reg_add v =
     [''wine'', ''reg'', ''add'',
      ''HKEY_CURRENT_USER'' @ [CHR 0x5C] @ ''Software'' @ [CHR 0x5C] @ ''Wine'',
      ''/v'', ''Version'', ''/t'', ''REG_SZ'', ''/d'', v, ''/f'']"

definition mt5_install_command :: "string list" where
  "mt5_install_command = [''wine'', ''/tmp/mt5setup.exe'', ''/auto'']"

text \<open>
  The loop of lines 294-302, started at \<open>start_time\<close>. The result is \<open>True\<close> when
  the loop leaves \<^verbatim>\<open>install_mt5\<close> by \<^verbatim>\<open>return\<close> (line 297).
\<close>

function wait_for_installer :: "nat \<Rightarrow> int \<Rightarrow> bool io" where
  "wait_for_installer process start_time w =
     (if clock w - start_time < seconds 300 then
        if kill_now w then bind_io (proc_terminate process) (\<lambda>_. unit_io True) w
        else if running w process
          then wait_for_installer process start_time
                 (advance (seconds 1) (emit (Sleep 1) (emit (ProcPoll process) w)))
          else (Inr False, emit (ProcPoll process) w)
      else (Inr False, w))"
  by pat_completeness auto
termination
  by (relation "measure (\<lambda>(process, start_time, w). nat (start_time + seconds 300 - clock w))")
     (auto simp: advance_def emit_def seconds_def)

declare wait_for_installer.simps [simp del]

text \<open>
  \<^verbatim>\<open>install_mt5\<close> (lines 259-313). The arguments of the first
  \<^verbatim>\<open>run_command\<close> are evaluated before the call, so a settings object
  without \<^verbatim>\<open>wine_version\<close> raises there.
\<close>

definition install_mt5 :: "lib \<Rightarrow> settings \<Rightarrow> unit io" where
  "install_mt5 L st = (\<lambda>w.
     if kill_now w then unit_io () w
     else
       bind_io (fs_exists (mt5_exe st)) (\<lambda>installed.
         if installed then unit_io ()
         else
           (case wine_version st of
              None \<Rightarrow> raise_io (AttributeError ''wine_version'')
            | Some v \<Rightarrow>
                bind_io (run_command (wine_reg_add v) True False) (\<lambda>_.
                bind_io (download_file L st (mt5_download_url st) mt5_installer None) (\<lambda>ok.
                  if ok then
                    bind_io (popen mt5_install_command) (\<lambda>process w1.
                      bind_io (wait_for_installer process (clock w1)) (\<lambda>left.
                        if left then unit_io ()
                        else
                          bind_io (proc_poll process) (\<lambda>alive.
                          bind_io (if alive then proc_terminate process else unit_io ()) (\<lambda>_.
                          bind_io (fs_unlink mt5_installer) (\<lambda>_.
                          bind_io (fs_exists (mt5_exe st)) (\<lambda>_. unit_io ()))))) w1)
                  else unit_io ())))) w)"

section \<open>Auxiliary notions\<close>

text \<open>The inode that \<open>fs_create\<close> opens at a path: the file's own, or a new one.\<close>

definition opened_inode :: "world \<Rightarrow> path \<Rightarrow> nat" where
  "opened_inode w p = (case dirents w p of Some i \<Rightarrow> i | None \<Rightarrow> next_ino w)"

text \<open>The actions taken between two worlds of one run.\<close>

definition performed :: "world \<Rightarrow> world \<Rightarrow> event list" where
  "performed w w' = drop (length (trace w)) (trace w')"

text \<open>A body that arrives whole: chunks only, no signal and no transport error.\<close>

fun uninterrupted :: "body_event list \<Rightarrow> bool" where
  "uninterrupted [] = True"
| "uninterrupted (Chunk c # rest) = uninterrupted rest"
| "uninterrupted (e # rest) = False"

text \<open>The bytes of the chunks of a body.\<close>

fun body_bytes :: "body_event list \<Rightarrow> bytes" where
  "body_bytes [] = []"
| "body_bytes (Chunk c # rest) = c @ body_bytes rest"
| "body_bytes (e # rest) = body_bytes rest"

text \<open>Whether an action is a call on the process \<open>pid\<close>.\<close>

fun concerns :: "nat \<Rightarrow> event \<Rightarrow> bool" where
  "concerns pid (ProcSpawn p cmd) = (p = pid)"
| "concerns pid (ProcPoll p) = (p = pid)"
| "concerns pid (ProcTerminate p) = (p = pid)"
| "concerns pid (ProcWait p t) = (p = pid)"
| "concerns pid (ProcKill p) = (p = pid)"
| "concerns pid e = False"

text \<open>A process once \<^verbatim>\<open>SIGTERM\<close> has been sent to it at time \<open>t\<close>.\<close>

definition after_sigterm :: "int \<Rightarrow> proc \<Rightarrow> proc" where
  "after_sigterm t p = (if termed_at p = None then p\<lparr>termed_at := Some t\<rparr> else p)"

text \<open>
  The tracked processes are distinct and each is a process that was started: what
  \<open>run_command\<close> maintains, since it tracks each process it starts once, under a
  process id never used before.
\<close>

definition tracked_fresh :: "world \<Rightarrow> bool" where
  "tracked_fresh w =
     (distinct (processes w)
      \<and> list_all (\<lambda>pid. pid < next_pid w \<and> procs w pid \<noteq> None) (processes w))"

section \<open>Concrete instances\<close>

text \<open>
  A stand-in for the library functions, a settings object and a few worlds, on which
  the model is run in the examples below. The stand-in hashes by prefixing its input
  and knows one metadata record, the one written at time \<open>0\<close> for a file whose
  content is \<open>''installer''\<close>.
\<close>

definition example_record :: json where
  "example_record =
     JObj [(''timestamp'', JStr ''1970-01-01T00:00:00''),
           (''checksum'', JStr ''sha256:installer'')]"

definition example_lib :: lib where
  "example_lib =
     \<lparr> md5_hexdigest = (\<lambda>url. ''md5:'' @ url),
       sha256_hexdigest = (\<lambda>data. ''sha256:'' @ data),
       json_loads = (\<lambda>text. if text = ''record-0'' then Some example_record else None),
       json_dumps = (\<lambda>j. if j = example_record then ''record-0'' else ''record-x''),
       fromisoformat = (\<lambda>s. if s = ''1970-01-01T00:00:00''
                              then Some \<lparr>micros = 0, tz_aware = False\<rparr> else None),
       isoformat = (\<lambda>d. if micros d = 0 then ''1970-01-01T00:00:00'' else ''later'') \<rparr>"

definition example_settings :: settings where
  "example_settings = DefaultSettings [''config'', ''.wine''] 8001 ''INFO''"

definition example_url :: string where
  "example_url = ''http://host/installer.exe''"

definition example_dest :: path where
  "example_dest = [''tmp'', ''installer.exe'']"

text \<open>
  A world with no files, no processes and no network; every directory exists, on one
  file system.
\<close>

definition empty_world :: world where
  "empty_world =
     \<lparr> dirents = Map.empty, idata = (\<lambda>_. []), next_ino = 1, device = (\<lambda>_. Some 0),
       kill_now = False, clock = 0,
       signal_at = None, net = (\<lambda>_. ConnFailed), procs = Map.empty, next_pid = 1,
       processes = [], spawn_env = (\<lambda>_. None), run_env = (\<lambda>_. None), trace = [] \<rparr>"

text \<open>A network on which only \<open>example_url\<close> answers, with the given body.\<close>

definition serve :: "body_event list \<Rightarrow> string \<Rightarrow> http_result" where
  "serve body = (\<lambda>url. if url = example_url then Response 200 NoLength body else ConnFailed)"

text \<open>
  A download whose content is not the expected one: the world before the call, and
  the world at line 180, the body written to the destination.
\<close>

definition tamper_world :: world where
  "tamper_world = empty_world\<lparr>net := serve [Chunk ''tamp'', Chunk ''ered'']\<rparr>"

definition tampered_world :: world where
  "tampered_world =
     tamper_world
       \<lparr>dirents := [example_dest \<mapsto> 1],
        idata := (\<lambda>_. [])(1 := ''tampered''),
        next_ino := 2,
        trace := [FsStat (cache_metadata_file example_lib example_url),
                  FsStat (cache_file example_dest),
                  HttpGet example_url 300,
                  FsCreate example_dest,
                  FsWrite example_dest ''tamp'',
                  FsWrite example_dest ''ered'']\<rparr>"

text \<open>
  A first download: the world before it, and the world it leaves, in which the
  destination and the cache file are two names of one file.
\<close>

definition first_world :: world where
  "first_world = empty_world\<lparr>net := serve [Chunk ''installer'']\<rparr>"

definition linked_world :: world where
  "linked_world =
     first_world
       \<lparr>dirents := [example_dest \<mapsto> 1, cache_file example_dest \<mapsto> 1,
                    cache_metadata_file example_lib example_url \<mapsto> 2],
        idata := (\<lambda>_. [])(1 := ''installer'', 2 := ''record-0''),
        next_ino := 3,
        trace := [FsStat (cache_metadata_file example_lib example_url),
                  FsStat (cache_file example_dest),
                  HttpGet example_url 300,
                  FsCreate example_dest,
                  FsWrite example_dest ''installer'',
                  FsLink example_dest (cache_file example_dest),
                  FsRead example_dest,
                  FsCreate (cache_metadata_file example_lib example_url),
                  FsWrite (cache_metadata_file example_lib example_url) ''record-0'']\<rparr>"

text \<open>
  The same cache entry once the caller has removed the destination, as the
  installation steps do after use.
\<close>

definition cached_world :: world where
  "cached_world = linked_world\<lparr>dirents := (dirents linked_world)(example_dest := None)\<rparr>"

text \<open>The same world some days later.\<close>

definition days_later :: "int \<Rightarrow> world \<Rightarrow> world" where
  "days_later n w = w\<lparr>clock := clock w + timedelta_days n\<rparr>"

text \<open>The cache entry with a metadata file that is not JSON.\<close>

definition corrupt_world :: world where
  "corrupt_world = cached_world\<lparr>idata := (idata cached_world)(2 := ''{broken'')\<rparr>"

text \<open>The cache entry eight days after it was written, the server still there.\<close>

definition expired_world :: world where
  "expired_world = days_later 8 cached_world"

text \<open>
  Eight days after a download whose destination was left in place, with a server
  whose answer is interrupted by a signal after the first chunk.
\<close>

definition interrupted_world :: world where
  "interrupted_world =
     (days_later 8 linked_world)\<lparr>net := serve [Chunk ''inst'', Signal, Chunk ''aller'']\<rparr>"

text \<open>The same, the destination having been removed after the first download.\<close>

definition interrupted_clean_world :: world where
  "interrupted_clean_world =
     (days_later 8 cached_world)\<lparr>net := serve [Chunk ''inst'', Signal, Chunk ''aller'']\<rparr>"

text \<open>
  Three tracked processes at time 10 s: one that exited at 3 s, one that exits a
  second after \<^verbatim>\<open>SIGTERM\<close>, and one that ignores \<^verbatim>\<open>SIGTERM\<close>.
\<close>

definition supervised_world :: world where
  "supervised_world =
     empty_world
       \<lparr>clock := seconds 10,
        procs := [1 \<mapsto> \<lparr>exit_at = Some (seconds 3), term_delay = Some (seconds 1),
                         termed_at = None, killed = False\<rparr>,
                  2 \<mapsto> \<lparr>exit_at = None, term_delay = Some (seconds 1),
                         termed_at = None, killed = False\<rparr>,
                  3 \<mapsto> \<lparr>exit_at = None, term_delay = None,
                         termed_at = None, killed = False\<rparr>],
        next_pid := 4,
        processes := [1, 2, 3]\<rparr>"

text \<open>
  A host on which the installation would go through: the download server answers,
  every foreground command ends with status 0, and a started process exits after two
  seconds.
\<close>

definition install_world :: world where
  "install_world =
     empty_world
       \<lparr>net := (\<lambda>url. Response 200 NoLength [Chunk ''setup'']),
        run_env := (\<lambda>cmd. Some \<lparr>returncode = 0, stdout = [], stderr = []\<rparr>),
        spawn_env := (\<lambda>cmd. Some (Some (seconds 2), Some 0))\<rparr>"





text \<open>
  The download of \<^verbatim>\<open>install_mono\<close>: a server that sends other bytes than
  Wine Mono's at \<^verbatim>\<open>mono_url\<close>, and the destination \<^verbatim>\<open>/tmp/mono.msi\<close>.
\<close>

definition mono_world :: world where
  "mono_world =
     empty_world
       \<lparr>net := (\<lambda>url. if url = mono_url example_settings
                        then Response 200 NoLength [Chunk ''tampered''] else ConnFailed)\<rparr>"

definition mono_installer :: path where
  "mono_installer = [''tmp'', ''mono.msi'']"

section \<open>Basic facts\<close>

lemma emit_simps [simp]:
  "dirents (emit e w) = dirents w" "idata (emit e w) = idata w" "next_ino (emit e w) = next_ino w"
  "kill_now (emit e w) = kill_now w" "clock (emit e w) = clock w" "net (emit e w) = net w"
  "device (emit e w) = device w"
  "signal_at (emit e w) = signal_at w" "procs (emit e w) = procs w" "next_pid (emit e w) = next_pid w"
  "processes (emit e w) = processes w" "spawn_env (emit e w) = spawn_env w" "run_env (emit e w) = run_env w"
  "trace (emit e w) = trace w @ [e]"
  by (simp_all add: emit_def)


lemmas io_defs = bind_io_def unit_io_def raise_io_def emit_def
  fs_exists_def fs_read_def fs_create_def fs_write_def fs_unlink_def fs_rename_def fs_link_def

lemmas path_defs = cache_dir_def path_name_def path_join_def cache_file_def cache_metadata_file_def

lemmas example_defs = example_lib_def example_settings_def example_url_def example_dest_def
  example_record_def empty_world_def DefaultSettings_def serve_def


lemma concat_read_blocks: "0 < n \<Longrightarrow> concat (read_blocks n bs) = bs"
proof (induction n bs rule: read_blocks.induct)
  case (1 n bs)
  show ?case
  proof (cases "bs = []")
    case True
    then show ?thesis by (simp add: read_blocks.simps)
  next
    case False
    with 1 have "concat (read_blocks n (drop n bs)) = drop n bs" by simp
    with False 1 show ?thesis by (subst read_blocks.simps) simp
  qed
qed

lemma fold_append_blocks: "fold (\<lambda>b h. h @ b) xs acc = acc @ concat xs"
  by (induction xs arbitrary: acc) auto

lemma calculate_checksum_content:
  "dirents w p = Some i \<Longrightarrow>
   calculate_checksum L p w = (Inr (sha256_hexdigest L (idata w i)), emit (FsRead p) w)"
  by (simp add: calculate_checksum_def bind_io_def fs_read_def unit_io_def
      fold_append_blocks concat_read_blocks)

lemma get_cache_metadata_eq:
  "get_cache_metadata L url w =
     (case dirents w (cache_metadata_file L url) of
        None \<Rightarrow> (Inr (JObj []), emit (FsStat (cache_metadata_file L url)) w)
      | Some i \<Rightarrow>
          (case json_loads L (idata w i) of
             None \<Rightarrow> Inl JSONDecodeError
           | Some md \<Rightarrow> Inr md,
           emit (FsRead (cache_metadata_file L url)) (emit (FsStat (cache_metadata_file L url)) w)))"
  by (simp add: get_cache_metadata_def bind_io_def fs_exists_def fs_read_def unit_io_def
      raise_io_def split: option.splits)

lemma use_cache_eq:
  "use_cache L dest md w =
     (if dirents w (cache_file dest) \<noteq> None \<and> truthy md then
        (case metadata_get md ''timestamp'' (JStr []) of
           Inl e \<Rightarrow> (Inl e, emit (FsStat (cache_file dest)) w)
         | Inr ts \<Rightarrow>
             (case datetime_fromisoformat L ts of
                Inl e \<Rightarrow> (Inl e, emit (FsStat (cache_file dest)) w)
              | Inr t \<Rightarrow>
                  (case datetime_sub (datetime_now w) t of
                     Inl e \<Rightarrow> (Inl e, emit (FsStat (cache_file dest)) w)
                   | Inr age \<Rightarrow>
                       if age < timedelta_days 7
                       then (case fst (fs_rename (cache_file dest) dest
                                         (emit (FsStat (cache_file dest)) w)) of
                               Inl e \<Rightarrow> Inl e
                             | Inr u \<Rightarrow> Inr True,
                             snd (fs_rename (cache_file dest) dest (emit (FsStat (cache_file dest)) w)))
                       else (Inr False, emit (FsStat (cache_file dest)) w))))
      else (Inr False, emit (FsStat (cache_file dest)) w))"
  by (simp add: use_cache_def bind_io_def fs_exists_def fs_rename_def unit_io_def
      raise_io_def datetime_now_def split: sum.splits option.splits)

lemma use_cache_miss_frame:
  assumes "fst (use_cache L dest md w) = Inr False"
  shows "snd (use_cache L dest md w) = emit (FsStat (cache_file dest)) w"
  using assms
  by (auto simp: use_cache_eq split: if_splits sum.splits)


lemma fs_create_frame [simp]:
  "dirents (snd (fs_create p w)) = (dirents w)(p \<mapsto> opened_inode w p)"
  "idata (snd (fs_create p w)) = (idata w)(opened_inode w p := [])"
  "kill_now (snd (fs_create p w)) = kill_now w"
  "clock (snd (fs_create p w)) = clock w"
  "net (snd (fs_create p w)) = net w"
  "trace (snd (fs_create p w)) = trace w @ [FsCreate p]"
  by (auto simp: fs_create_def opened_inode_def split: option.splits)

lemma write_chunks_frame:
  "dirents (snd (write_chunks p f body w)) = dirents w
   \<and> next_ino (snd (write_chunks p f body w)) = next_ino w
   \<and> clock (snd (write_chunks p f body w)) = clock w
   \<and> net (snd (write_chunks p f body w)) = net w
   \<and> (\<forall>j. j \<noteq> f \<longrightarrow> idata (snd (write_chunks p f body w)) j = idata w j)
   \<and> (\<exists>es. trace (snd (write_chunks p f body w)) = trace w @ es
          \<and> (\<forall>e \<in> set es. \<exists>c. e = FsWrite p c))"
proof (induction body arbitrary: w)
  case Nil
  then show ?case by (simp add: unit_io_def)
next
  case (Cons ev rest)
  show ?case
  proof (cases ev)
    case Signal
    with Cons[of "w\<lparr>kill_now := True\<rparr>"] show ?thesis by simp
  next
    case Broken
    then show ?thesis by (simp add: raise_io_def)
  next
    case (Chunk chunk)
    show ?thesis
    proof (cases "kill_now w \<or> chunk = []")
      case True
      with Chunk Cons[of w] show ?thesis by (auto simp: unit_io_def)
    next
      case False
      let ?w1 = "emit (FsWrite p chunk) (w\<lparr>idata := (idata w)(f := idata w f @ chunk)\<rparr>)"
      have step: "write_chunks p f (ev # rest) w = write_chunks p f rest ?w1"
        using False Chunk by (simp add: bind_io_def fs_write_def)
      from Cons[of ?w1] obtain es where
        es: "trace (snd (write_chunks p f rest ?w1)) = trace ?w1 @ es"
            "\<forall>e \<in> set es. \<exists>c. e = FsWrite p c"
        and rest: "dirents (snd (write_chunks p f rest ?w1)) = dirents ?w1"
            "next_ino (snd (write_chunks p f rest ?w1)) = next_ino ?w1"
            "clock (snd (write_chunks p f rest ?w1)) = clock ?w1"
            "net (snd (write_chunks p f rest ?w1)) = net ?w1"
            "\<forall>j. j \<noteq> f \<longrightarrow> idata (snd (write_chunks p f rest ?w1)) j = idata ?w1 j"
        by blast
      have "trace (snd (write_chunks p f rest ?w1)) = trace w @ (FsWrite p chunk # es)"
        using es(1) by simp
      moreover have "\<forall>e \<in> set (FsWrite p chunk # es). \<exists>c. e = FsWrite p c"
        using es(2) by simp
      ultimately have "\<exists>es. trace (snd (write_chunks p f rest ?w1)) = trace w @ es
          \<and> (\<forall>e \<in> set es. \<exists>c. e = FsWrite p c)" by blast
      with rest show ?thesis unfolding step by simp
    qed
  qed
qed

lemma write_chunks_interrupted:
  "fst (write_chunks p f body w) = Inr False \<Longrightarrow> kill_now (snd (write_chunks p f body w))"
proof (induction body arbitrary: w)
  case Nil
  then show ?case by (simp add: unit_io_def)
next
  case (Cons ev rest)
  then show ?case
    by (cases ev) (auto simp: unit_io_def raise_io_def bind_io_def fs_write_def split: if_splits)
qed

lemma write_chunks_killed:
  "kill_now w \<Longrightarrow> Broken \<notin> set mid \<Longrightarrow>
   fst (write_chunks p f (mid @ Chunk c # rest) w) = Inr False"
proof (induction mid arbitrary: w)
  case Nil
  then show ?case by (simp add: unit_io_def)
next
  case (Cons e mid)
  then show ?case by (cases e) (auto simp: unit_io_def)
qed

lemma write_chunks_signalled:
  "Broken \<notin> set pre \<Longrightarrow> Broken \<notin> set mid \<Longrightarrow>
   fst (write_chunks p f (pre @ Signal # mid @ Chunk c # rest) w) = Inr False"
proof (induction pre arbitrary: w)
  case Nil
  then show ?case by (simp add: write_chunks_killed)
next
  case (Cons e pre)
  show ?case
  proof (cases e)
    case (Chunk x)
    with Cons show ?thesis
      by (cases "kill_now w"; cases "x = []") (auto simp: unit_io_def bind_io_def fs_write_def)
  next
    case Signal
    with Cons show ?thesis by simp
  next
    case Broken
    with Cons show ?thesis by simp
  qed
qed


lemma session_get_frame [simp]:
  "dirents (snd (session_get url t w)) = dirents w"
  "idata (snd (session_get url t w)) = idata w"
  "next_ino (snd (session_get url t w)) = next_ino w"
  "kill_now (snd (session_get url t w)) = kill_now w"
  "clock (snd (session_get url t w)) = clock w"
  "net (snd (session_get url t w)) = net w"
  "trace (snd (session_get url t w)) = trace w @ [HttpGet url t]"
  by (simp_all add: session_get_def split: http_result.splits)









lemma get_cache_metadata_frame:
  assumes "get_cache_metadata L url w = (r, w1)"
  shows "dirents w1 = dirents w" and "idata w1 = idata w" and "next_ino w1 = next_ino w"
    and "kill_now w1 = kill_now w" and "clock w1 = clock w" and "net w1 = net w"
    and "\<exists>es. trace w1 = trace w @ es"
  using assms by (auto simp: get_cache_metadata_eq split: option.splits)




lemmas world_defs = first_world_def linked_world_def cached_world_def days_later_def
  tamper_world_def tampered_world_def

lemmas download_defs = download_file_def download_body_def try_cache_or_fetch_def
  get_cache_metadata_def use_cache_def fetch_to_dest_def session_get_def truthy_def
  metadata_get_def datetime_fromisoformat_def datetime_sub_def datetime_now_def timedelta_days_def
  verify_and_cache_def verify_checksum_def resolve_expected_def KNOWN_CHECKSUMS_def
  calculate_checksum_def save_cache_metadata_def

lemma first_download:
  "download_file example_lib example_settings example_url example_dest None first_world
     = (Inr True, linked_world)"
  by (simp add: download_file_def download_body_def try_cache_or_fetch_def get_cache_metadata_def
      use_cache_def fetch_to_dest_def session_get_def truthy_def verify_and_cache_def
      verify_checksum_def resolve_expected_def KNOWN_CHECKSUMS_def calculate_checksum_def
      save_cache_metadata_def datetime_now_def read_blocks.simps
      io_defs path_defs example_defs first_world_def linked_world_def numeral_2_eq_2 numeral_3_eq_3)


lemma write_chunks_complete:
  "\<not> kill_now w \<Longrightarrow> uninterrupted body \<Longrightarrow>
   fst (write_chunks p f body w) = Inr True
   \<and> idata (snd (write_chunks p f body w)) f = idata w f @ body_bytes body
   \<and> \<not> kill_now (snd (write_chunks p f body w))"
proof (induction body arbitrary: w)
  case Nil
  then show ?case by (simp add: unit_io_def)
next
  case (Cons ev rest)
  then obtain c where ev: "ev = Chunk c" and rest: "uninterrupted rest"
    by (cases ev) auto
  show ?case
  proof (cases "c = []")
    case True
    with Cons.IH[OF Cons.prems(1) rest] Cons.prems(1) ev show ?thesis by simp
  next
    case False
    let ?w1 = "emit (FsWrite p c) (w\<lparr>idata := (idata w)(f := idata w f @ c)\<rparr>)"
    have step: "write_chunks p f (ev # rest) w = write_chunks p f rest ?w1"
      using False ev Cons.prems(1) by (simp add: bind_io_def fs_write_def)
    have "\<not> kill_now ?w1" using Cons.prems(1) by simp
    from Cons.IH[OF this rest] show ?thesis unfolding step by (simp add: ev)
  qed
qed


lemma opened_inode_emit [simp]: "opened_inode (emit e w) p = opened_inode w p"
  by (simp add: opened_inode_def split: option.splits)

lemma fetch_to_dest_streams:
  assumes "net w url = Response status len body"
    and "\<not> (400 \<le> status \<and> status < 600)"
    and "len \<noteq> BadLength"
  shows "fetch_to_dest st url dest w =
     write_chunks dest (opened_inode w dest) body
       (snd (fs_create dest (emit (HttpGet url (download_timeout st)) w)))"
  using assms
  by (cases len)
     (auto simp: fetch_to_dest_def bind_io_def session_get_def fs_create_def opened_inode_def
        split: option.splits)

lemma bind_io_eq_Inr:
  "bind_io m f w = (Inr y, w'') \<longleftrightarrow> (\<exists>x w'. m w = (Inr x, w') \<and> f x w' = (Inr y, w''))"
  by (cases "m w") (auto simp: bind_io_def split: sum.splits)

lemmas more_world_defs = expired_world_def corrupt_world_def interrupted_world_def
  interrupted_clean_world_def




section \<open>Facts about the process supervisor\<close>

lemma advance_simps [simp]:
  "dirents (advance d w) = dirents w" "idata (advance d w) = idata w"
  "procs (advance d w) = procs w" "processes (advance d w) = processes w"
  "clock (advance d w) = clock w + d" "trace (advance d w) = trace w"
  "next_pid (advance d w) = next_pid w"
  by (simp_all add: advance_def)

lemma exit_time_alive:
  "\<not> killed p \<Longrightarrow> proc_alive p t \<longleftrightarrow> (case exit_time p of None \<Rightarrow> True | Some e \<Rightarrow> t < e)"
  by (auto simp: proc_alive_def exit_time_def split: option.splits)

lemma cleanup_process_running:
  assumes "procs w pid = Some p" and "proc_alive p (clock w)"
  shows "fst (cleanup_process pid w) = Inr ()"
    and "trace (snd (cleanup_process pid w)) = trace w @
          [ProcPoll pid, ProcTerminate pid, ProcWait pid 5] @
          (if proc_alive (after_sigterm (clock w) p) (clock w + seconds 5) then [ProcKill pid] else [])"
    and "\<forall>q. q \<noteq> pid \<longrightarrow> procs (snd (cleanup_process pid w)) q = procs w q"
    and "clock w \<le> clock (snd (cleanup_process pid w))"
    and "clock (snd (cleanup_process pid w)) \<le> clock w + seconds 5"
    and "processes (snd (cleanup_process pid w)) = processes w"
proof -
  let ?p' = "after_sigterm (clock w) p"
  define w1 where "w1 = snd (proc_terminate pid (emit (ProcPoll pid) w))"
  have nk: "\<not> killed p" using assms(2) by (simp add: proc_alive_def)
  have w1: "procs w1 = (procs w)(pid \<mapsto> ?p')" "clock w1 = clock w"
    "trace w1 = trace w @ [ProcPoll pid, ProcTerminate pid]" "processes w1 = processes w"
    using assms by (auto simp: w1_def proc_terminate_def after_sigterm_def)
  have step: "cleanup_process pid w =
     (case proc_wait pid 5 w1 of (Inl TimeoutExpired, w') \<Rightarrow> proc_kill pid w' | r \<Rightarrow> r)"
    using assms
    by (simp add: cleanup_process_def bind_io_def proc_poll_def running_def w1_def
        proc_terminate_def)
  have nk': "\<not> killed ?p'" using nk by (simp add: after_sigterm_def)
  have alive5: "proc_alive ?p' (clock w + seconds 5)
      \<longleftrightarrow> (case exit_time ?p' of None \<Rightarrow> True | Some e \<Rightarrow> \<not> e \<le> clock w + seconds 5)"
    using exit_time_alive[OF nk', of "clock w + seconds 5"] by (auto split: option.splits)
  have alive0: "proc_alive ?p' (clock w)
      \<longleftrightarrow> (case exit_time ?p' of None \<Rightarrow> True | Some e \<Rightarrow> clock w < e)"
    using exit_time_alive[OF nk', of "clock w"] .
  have pos: "0 \<le> seconds 5" by (simp add: seconds_def)
  show "fst (cleanup_process pid w) = Inr ()"
    unfolding step using w1
    by (auto simp: proc_wait_def proc_kill_def running_def split: option.splits)
  show "trace (snd (cleanup_process pid w)) = trace w @
          [ProcPoll pid, ProcTerminate pid, ProcWait pid 5] @
          (if proc_alive ?p' (clock w + seconds 5) then [ProcKill pid] else [])"
    unfolding step using w1 alive5 alive0 pos
    by (auto simp: proc_wait_def proc_kill_def running_def split: option.splits)
  show "\<forall>q. q \<noteq> pid \<longrightarrow> procs (snd (cleanup_process pid w)) q = procs w q"
    unfolding step using w1
    by (auto simp: proc_wait_def proc_kill_def running_def split: option.splits)
  show "clock w \<le> clock (snd (cleanup_process pid w))"
    unfolding step using w1 alive0 pos
    by (auto simp: proc_wait_def proc_kill_def running_def split: option.splits)
  show "clock (snd (cleanup_process pid w)) \<le> clock w + seconds 5"
    unfolding step using w1 pos
    by (auto simp: proc_wait_def proc_kill_def running_def split: option.splits)
  show "processes (snd (cleanup_process pid w)) = processes w"
    unfolding step using w1
    by (auto simp: proc_wait_def proc_kill_def running_def split: option.splits)
qed

lemma cleanup_process_exited:
  assumes "\<not> running w pid"
  shows "cleanup_process pid w = (Inr (), emit (ProcPoll pid) w)"
  using assms by (simp add: cleanup_process_def bind_io_def proc_poll_def unit_io_def)


lemma proc_alive_antimono: "proc_alive p t \<Longrightarrow> s \<le> t \<Longrightarrow> proc_alive p s"
  by (auto simp: proc_alive_def split: option.splits)

lemma concerns_other: "concerns q e \<Longrightarrow> q \<noteq> pid \<Longrightarrow> \<not> concerns pid e"
  by (cases e) auto

lemma cleanup_process_summary:
  "fst (cleanup_process q w) = Inr ()
   \<and> (\<exists>es. trace (snd (cleanup_process q w)) = trace w @ es \<and> (\<forall>e \<in> set es. concerns q e))
   \<and> (\<forall>r. r \<noteq> q \<longrightarrow> procs (snd (cleanup_process q w)) r = procs w r)
   \<and> clock w \<le> clock (snd (cleanup_process q w))
   \<and> clock (snd (cleanup_process q w)) \<le> clock w + seconds 5
   \<and> processes (snd (cleanup_process q w)) = processes w"
proof (cases "running w q")
  case False
  then show ?thesis by (simp add: cleanup_process_exited seconds_def)
next
  case True
  then obtain p where p: "procs w q = Some p" "proc_alive p (clock w)"
    by (auto simp: running_def split: option.splits)
  note r = cleanup_process_running[OF p]
  have "\<forall>e \<in> set ([ProcPoll q, ProcTerminate q, ProcWait q 5] @
          (if proc_alive (after_sigterm (clock w) p) (clock w + seconds 5) then [ProcKill q] else [])).
          concerns q e" by simp
  with r(2) have "\<exists>es. trace (snd (cleanup_process q w)) = trace w @ es \<and> (\<forall>e \<in> set es. concerns q e)"
    by blast
  with r(1,3,4,5,6) show ?thesis by blast
qed

lemma cleanup_loop_other:
  "pid \<notin> set ps \<Longrightarrow>
   fst (cleanup_loop ps w) = Inr ()
   \<and> (\<exists>es. trace (snd (cleanup_loop ps w)) = trace w @ es \<and> filter (concerns pid) es = [])
   \<and> procs (snd (cleanup_loop ps w)) pid = procs w pid
   \<and> clock w \<le> clock (snd (cleanup_loop ps w))
   \<and> clock (snd (cleanup_loop ps w)) \<le> clock w + seconds 5 * int (length ps)
   \<and> processes (snd (cleanup_loop ps w)) = processes w"
proof (induction ps arbitrary: w)
  case Nil
  then show ?case by (simp add: unit_io_def)
next
  case (Cons q ps)
  then have ne: "q \<noteq> pid" and notin: "pid \<notin> set ps" by auto
  obtain w1 where c: "cleanup_process q w = (Inr (), w1)"
    using cleanup_process_summary[of q w] by (cases "cleanup_process q w") auto
  from cleanup_process_summary[of q w] c obtain es1 where
    s1: "trace w1 = trace w @ es1" "\<forall>e \<in> set es1. concerns q e"
    "procs w1 pid = procs w pid" "clock w \<le> clock w1" "clock w1 \<le> clock w + seconds 5"
    "processes w1 = processes w"
    using ne by auto
  have f1: "filter (concerns pid) es1 = []"
    using s1(2) ne by (auto simp: filter_empty_conv dest: concerns_other)
  have step: "cleanup_loop (q # ps) w = cleanup_loop ps w1"
    using c by (simp add: bind_io_def)
  from Cons.IH[OF notin, of w1] obtain es2 where
    s2: "fst (cleanup_loop ps w1) = Inr ()" "trace (snd (cleanup_loop ps w1)) = trace w1 @ es2"
    "filter (concerns pid) es2 = []" "procs (snd (cleanup_loop ps w1)) pid = procs w1 pid"
    "clock w1 \<le> clock (snd (cleanup_loop ps w1))"
    "clock (snd (cleanup_loop ps w1)) \<le> clock w1 + seconds 5 * int (length ps)"
    "processes (snd (cleanup_loop ps w1)) = processes w1"
    by blast
  have "trace (snd (cleanup_loop ps w1)) = trace w @ (es1 @ es2) \<and> filter (concerns pid) (es1 @ es2) = []"
    using s1(1) s2(2,3) f1 by simp
  then have "\<exists>es. trace (snd (cleanup_loop ps w1)) = trace w @ es \<and> filter (concerns pid) es = []"
    by blast
  moreover have "clock (snd (cleanup_loop ps w1)) \<le> clock w + seconds 5 * int (length (q # ps))"
    using s1(5) s2(6) by (simp add: seconds_def)
  ultimately show ?case unfolding step using s1 s2 by simp
qed

lemma cleanup_loop_returns: "fst (cleanup_loop ps w) = Inr ()"
proof (induction ps arbitrary: w)
  case Nil
  then show ?case by (simp add: unit_io_def)
next
  case (Cons q ps)
  obtain w1 where c: "cleanup_process q w = (Inr (), w1)"
    using cleanup_process_summary[of q w] by (cases "cleanup_process q w") auto
  then show ?case using Cons[of w1] by (simp add: bind_io_def)
qed

lemma cleanup_loop_append:
  "cleanup_loop (xs @ ys) w = cleanup_loop ys (snd (cleanup_loop xs w))"
proof (induction xs arbitrary: w)
  case Nil
  then show ?case by (simp add: unit_io_def)
next
  case (Cons q xs)
  obtain w1 where c: "cleanup_process q w = (Inr (), w1)"
    using cleanup_process_summary[of q w] by (cases "cleanup_process q w") auto
  then show ?case using Cons[of w1] by (simp add: bind_io_def)
qed

lemma cleanup_loop_head:
  assumes "pid \<notin> set rest" and "procs w pid = Some p"
  shows "\<exists>es. trace (snd (cleanup_loop (pid # rest) w)) = trace w @ es
        \<and> filter (concerns pid) es =
            (if proc_alive p (clock w)
             then [ProcPoll pid, ProcTerminate pid, ProcWait pid 5] @
                  (if proc_alive (after_sigterm (clock w) p) (clock w + seconds 5)
                   then [ProcKill pid] else [])
             else [ProcPoll pid])"
    and "clock (snd (cleanup_loop (pid # rest) w)) \<le> clock w + seconds 5 * int (length (pid # rest))"
proof -
  obtain w1 where c: "cleanup_process pid w = (Inr (), w1)"
    using cleanup_process_summary[of pid w] by (cases "cleanup_process pid w") auto
  have step: "cleanup_loop (pid # rest) w = cleanup_loop rest w1"
    using c by (simp add: bind_io_def)
  let ?mine = "if proc_alive p (clock w)
             then [ProcPoll pid, ProcTerminate pid, ProcWait pid 5] @
                  (if proc_alive (after_sigterm (clock w) p) (clock w + seconds 5)
                   then [ProcKill pid] else [])
             else [ProcPoll pid]"
  have t1: "trace w1 = trace w @ ?mine"
  proof (cases "proc_alive p (clock w)")
    case True
    from cleanup_process_running(2)[OF assms(2) True] c True show ?thesis by simp
  next
    case False
    then have "\<not> running w pid" using assms(2) by (simp add: running_def)
    from cleanup_process_exited[OF this] c False show ?thesis by auto
  qed
  have c1: "clock w1 \<le> clock w + seconds 5"
    using cleanup_process_summary[of pid w] c by simp
  from cleanup_loop_other[OF assms(1), of w1] obtain es2 where
    s2: "trace (snd (cleanup_loop rest w1)) = trace w1 @ es2"
    "filter (concerns pid) es2 = []"
    "clock (snd (cleanup_loop rest w1)) \<le> clock w1 + seconds 5 * int (length rest)"
    by blast
  have "trace (snd (cleanup_loop rest w1)) = trace w @ (?mine @ es2)"
    using t1 s2(1) by simp
  moreover have "filter (concerns pid) (?mine @ es2) = ?mine" using s2(2) by simp
  ultimately show "\<exists>es. trace (snd (cleanup_loop (pid # rest) w)) = trace w @ es
        \<and> filter (concerns pid) es = ?mine"
    unfolding step by blast
  show "clock (snd (cleanup_loop (pid # rest) w)) \<le> clock w + seconds 5 * int (length (pid # rest))"
    unfolding step using c1 s2(3) by (simp add: seconds_def)
qed

lemma run_command_keeps_tracked_fresh:
  "tracked_fresh w \<Longrightarrow> tracked_fresh (snd (run_command cmd check background w))"
  by (auto simp: tracked_fresh_def run_command_def unit_io_def bind_io_def popen_def
      subprocess_run_def list_all_iff split: option.splits prod.splits sum.splits exn.splits)

lemma supervised_cleanup:
  "performed supervised_world (snd (cleanup supervised_world))
     = [ProcPoll 1,
        ProcPoll 2, ProcTerminate 2, ProcWait 2 5,
        ProcPoll 3, ProcTerminate 3, ProcWait 3 5, ProcKill 3]"
  by (simp add: cleanup_def cleanup_process_def proc_poll_def proc_terminate_def proc_wait_def
      proc_kill_def running_def proc_alive_def exit_time_def advance_def seconds_def
      performed_def io_defs supervised_world_def empty_world_def)

section \<open>Cancellation before a fetch\<close>

text \<open>
  Claim C7. When \<^verbatim>\<open>kill_now\<close> is set as \<^verbatim>\<open>download_file\<close> is called, the
  call returns \<^verbatim>\<open>False\<close> and leaves the world exactly as it found it: the
  file system is untouched and the record of actions has no new entry, so there was
  no request, no look at the cache, no write.
\<close>

theorem download_file_cancelled_before_start:
  "kill_now w \<Longrightarrow> download_file L st url dest_path expected_checksum w = (Inr False, w)"
  by (simp add: download_file_def download_body_def try_cache_or_fetch_def bind_io_def unit_io_def)

theorem download_file_cancelled_before_start_witness:
  "kill_now (empty_world\<lparr>kill_now := True\<rparr>)
   \<and> download_file example_lib example_settings example_url example_dest None
        (empty_world\<lparr>kill_now := True\<rparr>)
     = (Inr False, empty_world\<lparr>kill_now := True\<rparr>)"
  using download_file_cancelled_before_start
    [of "empty_world\<lparr>kill_now := True\<rparr>" example_lib example_settings example_url example_dest None]
  by simp

section \<open>No exception leaves the download manager\<close>

text \<open>
  Claim C8. Whatever the world, the arguments and the library do, and so whichever
  exception the body of \<^verbatim>\<open>download_file\<close> meets while it reads the cache,
  talks to the network, writes the destination, verifies or fills the cache, the call
  ends with a Boolean value and not with an exception.
\<close>

theorem download_file_never_raises:
  "\<exists>b w'. download_file L st url dest_path expected_checksum w = (Inr b, w')"
  by (cases "download_body L st url dest_path expected_checksum w")
     (auto simp: download_file_def split: sum.splits)

section \<open>A download that fails verification\<close>




text \<open>
  The table is keyed by the file names of the URLs, while the code looks an entry up
  under the file name of the destination. The amended claim says nothing of a
  download whose destination is named otherwise: \<^verbatim>\<open>install_mono\<close> downloads
  to \<^verbatim>\<open>/tmp/mono.msi\<close>, for which no hash is found, and bytes that are not
  Wine Mono's are accepted and put into the cache.
\<close>

lemma known_checksum_missed_by_destination_name:
  "map_of KNOWN_CHECKSUMS ''wine-mono-8.0.0-x86.msi''
     = Some ''3f7b1cd6b7842c09142082e50ece97abe848a033a0838f029c35ce973926c275''
   \<and> resolve_expected None mono_installer = None
   \<and> fst (download_file example_lib example_settings (mono_url example_settings) mono_installer
            None mono_world) = Inr True
   \<and> dirents (snd (download_file example_lib example_settings (mono_url example_settings)
                     mono_installer None mono_world)) (cache_file mono_installer) = Some 1
   \<and> idata (snd (download_file example_lib example_settings (mono_url example_settings)
                   mono_installer None mono_world)) 1 = ''tampered''"
  by (simp add: download_defs io_defs path_defs example_defs mono_world_def mono_installer_def
      read_blocks.simps)

section \<open>A fresh cache entry\<close>




section \<open>An expired cache entry\<close>

text \<open>
  Claim C3 does not hold of the code. Let a call of \<^verbatim>\<open>download_file\<close> begin
  with the flag clear, the cache file present and a metadata record whose timestamp
  is seven days old or more; let the server answer with a body that arrives whole,
  and let verification pass (no expected hash is known, or the digest of the body is
  the expected one). The call does send the request and writes the destination, but
  \<^verbatim>\<open>dest_path.link_to(cache_file)\<close> then raises
  \<^verbatim>\<open>FileExistsError\<close>, because the cache file is there: the call returns
  \<^verbatim>\<open>False\<close>, its last action is the failed link, the metadata record is not
  rewritten, and apart from the destination every path and every file is as before.
\<close>

theorem expired_entry_is_not_refreshed:
  assumes "\<not> kill_now w"
    and "dirents w (cache_file dest_path) = Some c"
    and "dirents w (cache_metadata_file L url) = Some m"
    and "json_loads L (idata w m) = Some (JObj kvs)"
    and "map_of kvs ''timestamp'' = Some (JStr s)"
    and "fromisoformat L s = Some t"
    and "\<not> tz_aware t"
    and "timedelta_days 7 \<le> clock w - micros t"
    and "net w url = Response status len body"
    and "\<not> (400 \<le> status \<and> status < 600)"
    and "len \<noteq> BadLength"
    and "uninterrupted body"
    and "case resolve_expected expected_checksum dest_path of
           None \<Rightarrow> True
         | Some h \<Rightarrow> h = [] \<or> h = sha256_hexdigest L (body_bytes body)"
  shows "\<exists>w'. download_file L st url dest_path expected_checksum w = (Inr False, w')
     \<and> HttpGet url (download_timeout st) \<in> set (performed w w')
     \<and> last (trace w') = FsLink dest_path (cache_file dest_path)
     \<and> dirents w' = (dirents w)(dest_path \<mapsto> opened_inode w dest_path)
     \<and> (\<forall>j. j \<noteq> opened_inode w dest_path \<longrightarrow> idata w' j = idata w j)"
proof -
  let ?meta = "cache_metadata_file L url"
  let ?cf = "cache_file dest_path"
  let ?f = "opened_inode w dest_path"
  define w1 where "w1 = emit (FsRead ?meta) (emit (FsStat ?meta) w)"
  define wb where "wb = emit (FsStat ?cf) w1"
  define wc where "wc = snd (fs_create dest_path (emit (HttpGet url (download_timeout st)) wb))"
  define w2 where "w2 = snd (write_chunks dest_path ?f body wc)"
  have g: "get_cache_metadata L url w = (Inr (JObj kvs), w1)"
    using assms(3,4) by (simp add: get_cache_metadata_eq w1_def)
  have kv: "kvs \<noteq> []" using assms(5) by auto
  have u: "use_cache L dest_path (JObj kvs) w1 = (Inr False, wb)"
    using assms(2,5,6,7,8) kv
    by (simp add: use_cache_eq truthy_def metadata_get_def datetime_fromisoformat_def
        datetime_sub_def datetime_now_def w1_def wb_def)
  have oi: "opened_inode wb dest_path = ?f"
    by (simp add: wb_def w1_def)
  have f: "fetch_to_dest st url dest_path wb = write_chunks dest_path ?f body wc"
    using fetch_to_dest_streams[of wb url status len body st dest_path] assms(9,10,11)
    by (simp add: wb_def w1_def wc_def)
  have nkc: "\<not> kill_now wc" using assms(1) by (simp add: wc_def wb_def w1_def)
  from write_chunks_complete[OF nkc assms(12), of dest_path ?f]
  have fin: "fst (write_chunks dest_path ?f body wc) = Inr True"
    and content: "idata w2 ?f = idata wc ?f @ body_bytes body"
    by (simp_all add: w2_def)
  have f2: "fetch_to_dest st url dest_path wb = (Inr True, w2)"
    using f fin by (cases "write_chunks dest_path ?f body wc") (simp add: w2_def)
  have dc: "dirents wc = (dirents w)(dest_path \<mapsto> ?f)" "idata wc = (idata w)(?f := [])"
    "trace wc = trace w @ [FsStat ?meta, FsRead ?meta, FsStat ?cf,
        HttpGet url (download_timeout st), FsCreate dest_path]"
    by (simp_all add: wc_def wb_def w1_def)
  note fr = write_chunks_frame[of dest_path ?f body wc, folded w2_def]
  have d2: "dirents w2 = (dirents w)(dest_path \<mapsto> ?f)" using fr dc by simp
  have i2: "\<forall>j. j \<noteq> ?f \<longrightarrow> idata w2 j = idata w j" using fr dc by simp
  have c2: "idata w2 ?f = body_bytes body" using content dc by simp
  from fr dc obtain es where t2: "trace w2 = trace w @ [FsStat ?meta, FsRead ?meta, FsStat ?cf,
        HttpGet url (download_timeout st), FsCreate dest_path] @ es" by auto
  have here: "dirents w2 dest_path = Some ?f" using d2 by simp
  have "\<exists>wv. verify_checksum L dest_path (resolve_expected expected_checksum dest_path) w2
        = (Inr True, wv) \<and> (wv = w2 \<or> wv = emit (FsRead dest_path) w2)"
  proof (cases "resolve_expected expected_checksum dest_path")
    case None
    then show ?thesis by (simp add: verify_checksum_def unit_io_def)
  next
    case (Some h)
    show ?thesis
    proof (cases "h = []")
      case True
      with Some show ?thesis by (simp add: verify_checksum_def unit_io_def)
    next
      case False
      with Some assms(13) have "h = sha256_hexdigest L (idata w2 ?f)" using c2 by simp
      with Some False show ?thesis
        by (simp add: verify_checksum_def bind_io_def unit_io_def
            calculate_checksum_content[OF here])
    qed
  qed
  then obtain wv where v: "verify_checksum L dest_path (resolve_expected expected_checksum dest_path) w2
        = (Inr True, wv)"
      and wv: "wv = w2 \<or> wv = emit (FsRead dest_path) w2"
    by blast
  have dv: "dirents wv = (dirents w)(dest_path \<mapsto> ?f)" "\<forall>j. j \<noteq> ?f \<longrightarrow> idata wv j = idata w j"
    using wv d2 i2 by auto
  have taken: "dirents wv ?cf \<noteq> None" using dv(1) assms(2) by simp
  have l: "fs_link dest_path ?cf wv = (Inl (FileExistsError ?cf), emit (FsLink dest_path ?cf) wv)"
    using dv(1) taken by (simp add: fs_link_def)
  have vc: "verify_and_cache L url dest_path expected_checksum w2
      = (Inl (FileExistsError ?cf), emit (FsLink dest_path ?cf) wv)"
    using v l by (simp add: verify_and_cache_def bind_io_def)
  have t: "try_cache_or_fetch L st url dest_path w = (Inr Downloaded, w2)"
    using assms(1) g u f2 by (simp add: try_cache_or_fetch_def bind_io_def unit_io_def)
  have r: "download_file L st url dest_path expected_checksum w
      = (Inr False, emit (FsLink dest_path ?cf) wv)"
    using t vc by (simp add: download_file_def download_body_def bind_io_def)
  have "HttpGet url (download_timeout st) \<in> set (performed w (emit (FsLink dest_path ?cf) wv))"
    using wv t2 by (auto simp: performed_def)
  with r dv show ?thesis by simp
qed

theorem expired_entry_is_not_refreshed_witness:
  "\<not> kill_now expired_world
   \<and> dirents expired_world (cache_file example_dest) = Some 1
   \<and> dirents expired_world (cache_metadata_file example_lib example_url) = Some 2
   \<and> json_loads example_lib (idata expired_world 2)
       = Some (JObj [(''timestamp'', JStr ''1970-01-01T00:00:00''),
                     (''checksum'', JStr ''sha256:installer'')])
   \<and> fromisoformat example_lib ''1970-01-01T00:00:00'' = Some \<lparr>micros = 0, tz_aware = False\<rparr>
   \<and> timedelta_days 7 \<le> clock expired_world - 0
   \<and> net expired_world example_url = Response 200 NoLength [Chunk ''installer'']
   \<and> uninterrupted [Chunk ''installer'']
   \<and> resolve_expected (Some ''sha256:installer'') example_dest = Some ''sha256:installer''
   \<and> sha256_hexdigest example_lib (body_bytes [Chunk ''installer'']) = ''sha256:installer''
   \<and> (\<exists>w'. download_file example_lib example_settings example_url example_dest
              (Some ''sha256:installer'') expired_world = (Inr False, w')
         \<and> HttpGet example_url 300 \<in> set (performed expired_world w')
         \<and> last (trace w') = FsLink example_dest (cache_file example_dest)
         \<and> dirents w' (cache_file example_dest) = Some 1
         \<and> dirents w' (cache_metadata_file example_lib example_url) = Some 2
         \<and> idata w' 2 = ''record-0'')"
proof -
  let ?W = expired_world
  have h1: "\<not> kill_now ?W" by (simp add: expired_world_def world_defs example_defs)
  have h2: "dirents ?W (cache_file example_dest) = Some 1"
    by (simp add: expired_world_def world_defs example_defs path_defs)
  have h3: "dirents ?W (cache_metadata_file example_lib example_url) = Some 2"
    by (simp add: expired_world_def world_defs example_defs path_defs)
  have h4: "json_loads example_lib (idata ?W 2)
       = Some (JObj [(''timestamp'', JStr ''1970-01-01T00:00:00''),
                     (''checksum'', JStr ''sha256:installer'')])"
    by (simp add: expired_world_def world_defs example_defs)
  have h5: "map_of [(''timestamp'', JStr ''1970-01-01T00:00:00''),
                     (''checksum'', JStr ''sha256:installer'')] ''timestamp''
       = Some (JStr ''1970-01-01T00:00:00'')" by simp
  have h6: "fromisoformat example_lib ''1970-01-01T00:00:00'' = Some \<lparr>micros = 0, tz_aware = False\<rparr>"
    by (simp add: example_defs)
  have h7: "\<not> tz_aware \<lparr>micros = 0, tz_aware = False\<rparr>" by simp
  have h8: "timedelta_days 7 \<le> clock ?W - micros \<lparr>micros = 0, tz_aware = False\<rparr>"
    by (simp add: expired_world_def world_defs example_defs timedelta_days_def)
  have h9: "net ?W example_url = Response 200 NoLength [Chunk ''installer'']"
    by (simp add: expired_world_def world_defs example_defs)
  have h10: "\<not> (400 \<le> (200::nat) \<and> (200::nat) < 600)" by simp
  have h11: "NoLength \<noteq> BadLength" by simp
  have h12: "uninterrupted [Chunk ''installer'']" by simp
  have r: "resolve_expected (Some ''sha256:installer'') example_dest = Some ''sha256:installer''"
    by (simp add: resolve_expected_def)
  have d: "sha256_hexdigest example_lib (body_bytes [Chunk ''installer'']) = ''sha256:installer''"
    by (simp add: example_defs)
  have h13: "case resolve_expected (Some ''sha256:installer'') example_dest of
           None \<Rightarrow> True
         | Some h \<Rightarrow> h = [] \<or> h = sha256_hexdigest example_lib (body_bytes [Chunk ''installer''])"
    using d by (simp add: r)
  have t: "download_timeout example_settings = 300" by (simp add: example_defs)
  have o: "opened_inode ?W example_dest = 3"
    by (simp add: opened_inode_def expired_world_def world_defs example_defs path_defs)
  have ne: "cache_file example_dest \<noteq> example_dest"
    "cache_metadata_file example_lib example_url \<noteq> example_dest"
    by (simp_all add: example_defs path_defs)
  have i: "idata ?W 2 = ''record-0''" by (simp add: expired_world_def world_defs example_defs)
  from expired_entry_is_not_refreshed[OF h1 h2 h3 h4 h5 h6 h7 h8 h9 h10 h11 h12 h13,
      of example_settings, unfolded t o]
  obtain w' where w':
    "download_file example_lib example_settings example_url example_dest
              (Some ''sha256:installer'') ?W = (Inr False, w')"
    "HttpGet example_url 300 \<in> set (performed ?W w')"
    "last (trace w') = FsLink example_dest (cache_file example_dest)"
    "dirents w' = (dirents ?W)(example_dest \<mapsto> 3)"
    "\<forall>j. j \<noteq> 3 \<longrightarrow> idata w' j = idata ?W j"
    by blast
  have "dirents w' (cache_file example_dest) = Some 1"
    "dirents w' (cache_metadata_file example_lib example_url) = Some 2"
    "idata w' 2 = ''record-0''"
    using w'(4,5) ne h2 h3 i by simp_all
  with w'(1,2,3) h1 h2 h3 h4 h6 h8 h9 h12 r d show ?thesis by simp
qed

section \<open>A metadata record that does not parse\<close>

text \<open>
  Claim C4 does not hold of the code. When the metadata file of the URL exists and
  \<^verbatim>\<open>json.load\<close> raises on it, \<^verbatim>\<open>_get_cache_metadata\<close> lets the
  exception through, the handler of \<^verbatim>\<open>download_file\<close> turns it into
  \<^verbatim>\<open>False\<close>, and the call ends after two actions, the look for the record and
  its read: no request is sent and nothing is downloaded, however healthy the server.
\<close>

theorem unparsable_metadata_fails_fetch:
  assumes "\<not> kill_now w"
    and "dirents w (cache_metadata_file L url) = Some m"
    and "json_loads L (idata w m) = None"
  shows "download_file L st url dest_path expected_checksum w
     = (Inr False,
        emit (FsRead (cache_metadata_file L url)) (emit (FsStat (cache_metadata_file L url)) w))"
  using assms
  by (simp add: download_file_def download_body_def try_cache_or_fetch_def bind_io_def
      get_cache_metadata_eq)

theorem unparsable_metadata_fails_fetch_witness:
  "\<not> kill_now (days_later 1 corrupt_world)
   \<and> dirents (days_later 1 corrupt_world) (cache_metadata_file example_lib example_url) = Some 2
   \<and> json_loads example_lib (idata (days_later 1 corrupt_world) 2) = None
   \<and> net (days_later 1 corrupt_world) example_url = Response 200 NoLength [Chunk ''installer'']
   \<and> fst (download_file example_lib example_settings example_url example_dest None
            (days_later 1 corrupt_world)) = Inr False
   \<and> performed (days_later 1 corrupt_world)
        (snd (download_file example_lib example_settings example_url example_dest None
            (days_later 1 corrupt_world)))
      = [FsStat (cache_metadata_file example_lib example_url),
         FsRead (cache_metadata_file example_lib example_url)]"
proof -
  let ?W = "days_later 1 corrupt_world"
  have h1: "\<not> kill_now ?W" by (simp add: world_defs corrupt_world_def example_defs)
  have h2: "dirents ?W (cache_metadata_file example_lib example_url) = Some 2"
    by (simp add: world_defs corrupt_world_def example_defs path_defs)
  have h3: "json_loads example_lib (idata ?W 2) = None"
    by (simp add: world_defs corrupt_world_def example_defs)
  have h4: "net ?W example_url = Response 200 NoLength [Chunk ''installer'']"
    by (simp add: world_defs corrupt_world_def example_defs)
  from unparsable_metadata_fails_fetch[OF h1 h2 h3, of example_settings example_dest None]
    h1 h2 h3 h4
  show ?thesis by (simp add: performed_def)
qed

section \<open>The installation step\<close>

text \<open>
  Claim C5 does not hold of the code under the default configuration.
  \<^verbatim>\<open>DefaultSettings\<close> has no \<^verbatim>\<open>wine_version\<close>, so when the
  executable is absent and the flag is clear, \<^verbatim>\<open>install_mt5\<close> raises
  \<^verbatim>\<open>AttributeError\<close> while it builds the arguments of its first command:
  the only action is the look for the executable, the registry value is not set, the
  installer is neither downloaded nor started.
\<close>

theorem install_mt5_raises_on_default_settings:
  assumes "\<not> kill_now w"
    and "dirents w (mt5_exe (DefaultSettings prefix port level)) = None"
  shows "install_mt5 L (DefaultSettings prefix port level) w
     = (Inl (AttributeError ''wine_version''),
        emit (FsStat (mt5_exe (DefaultSettings prefix port level))) w)"
  using assms
  by (simp add: install_mt5_def bind_io_def fs_exists_def raise_io_def DefaultSettings_def)

theorem install_mt5_raises_on_default_settings_witness:
  "\<not> kill_now install_world
   \<and> dirents install_world (mt5_exe (DefaultSettings [''config'', ''.wine''] 8001 ''INFO'')) = None
   \<and> install_mt5 example_lib (DefaultSettings [''config'', ''.wine''] 8001 ''INFO'') install_world
     = (Inl (AttributeError ''wine_version''),
        install_world\<lparr>trace :=
          [FsStat [''config'', ''.wine'', ''drive_c'', ''Program Files'', ''MetaTrader 5'',
                   ''terminal64.exe'']]\<rparr>)"
proof -
  have h1: "\<not> kill_now install_world" by (simp add: install_world_def empty_world_def)
  have h2: "dirents install_world (mt5_exe (DefaultSettings [''config'', ''.wine''] 8001 ''INFO'')) = None"
    by (simp add: install_world_def empty_world_def)
  from install_mt5_raises_on_default_settings[OF h1 h2, of example_lib] h1 h2
  show ?thesis
    by (simp add: emit_def mt5_exe_def DefaultSettings_def install_world_def empty_world_def)
qed

text \<open>
  With a settings object that does define \<^verbatim>\<open>wine_version\<close> the step does
  what the claim says: on a host where everything succeeds, the registry command runs
  first, with the configured version, the installer is downloaded and started, and it
  is polled once a second until it exits.
\<close>

lemma install_mt5_with_wine_version:
  "fst (install_mt5 example_lib (example_settings\<lparr>wine_version := Some ''win10''\<rparr>) install_world)
     = Inr ()
   \<and> trace (snd (install_mt5 example_lib (example_settings\<lparr>wine_version := Some ''win10''\<rparr>)
                  install_world))
     = [FsStat (mt5_exe example_settings),
        ProcRun (wine_reg_add ''win10''),
        FsStat (cache_metadata_file example_lib (mt5_download_url example_settings)),
        FsStat (cache_file mt5_installer),
        HttpGet (mt5_download_url example_settings) 300,
        FsCreate mt5_installer,
        FsWrite mt5_installer ''setup'',
        FsLink mt5_installer (cache_file mt5_installer),
        FsRead mt5_installer,
        FsCreate (cache_metadata_file example_lib (mt5_download_url example_settings)),
        FsWrite (cache_metadata_file example_lib (mt5_download_url example_settings)) ''record-x'',
        ProcSpawn 1 mt5_install_command,
        ProcPoll 1, Sleep 1, ProcPoll 1, Sleep 1, ProcPoll 1,
        ProcPoll 1,
        FsUnlink mt5_installer,
        FsStat (mt5_exe example_settings)]"
  by (simp add: install_mt5_def run_command_def subprocess_run_def popen_def proc_poll_def
      proc_terminate_def running_def proc_alive_def advance_def seconds_def
      wait_for_installer.simps mt5_exe_def mt5_installer_def mt5_install_command_def wine_reg_add_def
      download_defs io_defs path_defs example_defs install_world_def read_blocks.simps)

text \<open>
  The loop that waits for the installer ends within 300 seconds of its start, give
  or take the last sleep of one second.
\<close>

lemma proc_terminate_clock [simp]: "clock (snd (proc_terminate pid w)) = clock w"
  by (simp add: proc_terminate_def split: option.splits)

lemma wait_for_installer_bounded:
  "clock (snd (wait_for_installer process start_time w))
     < max (clock w + 1) (start_time + seconds 301)"
proof (induction process start_time w rule: wait_for_installer.induct)
  case (1 process start_time w)
  show ?case
  proof (cases "clock w - start_time < seconds 300 \<and> \<not> kill_now w \<and> running w process")
    case True
    let ?w' = "advance (seconds 1) (emit (Sleep 1) (emit (ProcPoll process) w))"
    from True have step: "wait_for_installer process start_time w
        = wait_for_installer process start_time ?w'"
      by (subst wait_for_installer.simps) simp
    from True 1 have "clock (snd (wait_for_installer process start_time ?w'))
        < max (clock ?w' + 1) (start_time + seconds 301)" by simp
    with True show ?thesis unfolding step by (simp add: seconds_def)
  next
    case False
    then show ?thesis
      by (subst wait_for_installer.simps)
         (auto simp: bind_io_def unit_io_def proc_terminate_def split: option.splits)
  qed
qed

section \<open>Cleanup\<close>

text \<open>
  Claim C6. Let the tracked processes be distinct, as \<^verbatim>\<open>run_command\<close> keeps
  them, and let \<open>pid\<close> be one of them, with the processes \<open>before\<close> ahead of it in
  the list. \<^verbatim>\<open>cleanup\<close> returns without an exception, after at most five
  seconds per tracked process. The loop reaches \<open>pid\<close> when it is through with the
  processes ahead of it, at the time the clock shows then, which is at most five
  seconds per earlier process after the call (the time of the call for the first
  process). If \<open>pid\<close> still runs at that time, it is sent \<^verbatim>\<open>SIGTERM\<close>,
  waited for with a timeout of 5 seconds, and killed, once, exactly when it is
  still alive 5 seconds after the \<^verbatim>\<open>SIGTERM\<close>; if it has exited by then, it
  is only polled. In particular a process that had exited when \<^verbatim>\<open>cleanup\<close>
  was called is only polled, and a process that does not exit by itself is sent
  \<^verbatim>\<open>SIGTERM\<close> and waited for whatever its place in the list, and killed
  exactly when it does not exit within 5 seconds of the \<^verbatim>\<open>SIGTERM\<close>.
\<close>

theorem cleanup_stops_each_tracked_process:
  assumes "processes w = before @ pid # rest"
    and "distinct (processes w)"
    and "procs w pid = Some p"
  shows "fst (cleanup w) = Inr ()
     \<and> clock (snd (cleanup w)) \<le> clock w + seconds 5 * int (length (processes w))
     \<and> clock w \<le> clock (snd (cleanup_loop before w))
     \<and> clock (snd (cleanup_loop before w)) \<le> clock w + seconds 5 * int (length before)
     \<and> filter (concerns pid) (performed w (snd (cleanup w))) =
         (if proc_alive p (clock (snd (cleanup_loop before w)))
          then [ProcPoll pid, ProcTerminate pid, ProcWait pid 5] @
               (if proc_alive (after_sigterm (clock (snd (cleanup_loop before w))) p)
                     (clock (snd (cleanup_loop before w)) + seconds 5)
                then [ProcKill pid] else [])
          else [ProcPoll pid])
     \<and> (\<not> proc_alive p (clock w) \<longrightarrow>
          filter (concerns pid) (performed w (snd (cleanup w))) = [ProcPoll pid])
     \<and> (exit_at p = None \<and> termed_at p = None \<and> \<not> killed p \<longrightarrow>
          filter (concerns pid) (performed w (snd (cleanup w))) =
            [ProcPoll pid, ProcTerminate pid, ProcWait pid 5] @
            (if (case term_delay p of None \<Rightarrow> True | Some d \<Rightarrow> seconds 5 < d)
             then [ProcKill pid] else []))"
proof -
  define w1 where "w1 = snd (cleanup_loop before w)"
  let ?t = "clock w1"
  have notin: "pid \<notin> set before" "pid \<notin> set rest"
    using assms(1,2) by auto
  from cleanup_loop_other[OF notin(1), of w] obtain es0 where
    b: "trace w1 = trace w @ es0" "filter (concerns pid) es0 = []" "procs w1 pid = procs w pid"
    "clock w \<le> ?t" "?t \<le> clock w + seconds 5 * int (length before)"
    unfolding w1_def by blast
  have split: "cleanup w = cleanup_loop (pid # rest) w1"
    using assms(1) by (simp add: cleanup_def cleanup_loop_append w1_def)
  have p1: "procs w1 pid = Some p" using b(3) assms(3) by simp
  from cleanup_loop_head(1)[OF notin(2) p1] obtain es where
    h: "trace (snd (cleanup_loop (pid # rest) w1)) = trace w1 @ es"
    "filter (concerns pid) es =
            (if proc_alive p ?t
             then [ProcPoll pid, ProcTerminate pid, ProcWait pid 5] @
                  (if proc_alive (after_sigterm ?t p) (?t + seconds 5) then [ProcKill pid] else [])
             else [ProcPoll pid])"
    by blast
  have pf: "performed w (snd (cleanup w)) = es0 @ es"
    using h(1) b(1) by (simp add: split performed_def)
  have main: "filter (concerns pid) (performed w (snd (cleanup w))) =
            (if proc_alive p ?t
             then [ProcPoll pid, ProcTerminate pid, ProcWait pid 5] @
                  (if proc_alive (after_sigterm ?t p) (?t + seconds 5) then [ProcKill pid] else [])
             else [ProcPoll pid])"
    using pf b(2) h(2) by simp
  have ok: "fst (cleanup w) = Inr ()"
    by (simp add: cleanup_def cleanup_loop_returns)
  have bound: "clock (snd (cleanup w)) \<le> clock w + seconds 5 * int (length (processes w))"
    using cleanup_loop_head(2)[OF notin(2) p1] b(5) assms(1)
    by (simp add: split seconds_def)
  have gone: "filter (concerns pid) (performed w (snd (cleanup w))) = [ProcPoll pid]"
    if "\<not> proc_alive p (clock w)"
  proof -
    from that b(4) have "\<not> proc_alive p ?t" using proc_alive_antimono[of p ?t "clock w"] by blast
    with main show ?thesis by simp
  qed
  have stays: "filter (concerns pid) (performed w (snd (cleanup w))) =
            [ProcPoll pid, ProcTerminate pid, ProcWait pid 5] @
            (if (case term_delay p of None \<Rightarrow> True | Some d \<Rightarrow> seconds 5 < d)
             then [ProcKill pid] else [])"
    if "exit_at p = None \<and> termed_at p = None \<and> \<not> killed p"
  proof -
    from that have "proc_alive p ?t" by (simp add: proc_alive_def)
    moreover from that have "proc_alive (after_sigterm ?t p) (?t + seconds 5)
        \<longleftrightarrow> (case term_delay p of None \<Rightarrow> True | Some d \<Rightarrow> seconds 5 < d)"
      by (auto simp: proc_alive_def after_sigterm_def split: option.splits)
    ultimately show ?thesis using main by simp
  qed
  from ok bound b(4,5) main gone stays show ?thesis unfolding w1_def by blast
qed

theorem cleanup_stops_each_tracked_process_witness:
  "processes supervised_world = [1, 2] @ 3 # []
   \<and> distinct (processes supervised_world)
   \<and> procs supervised_world 3
       = Some \<lparr>exit_at = None, term_delay = None, termed_at = None, killed = False\<rparr>
   \<and> procs supervised_world 2
       = Some \<lparr>exit_at = None, term_delay = Some (seconds 1), termed_at = None, killed = False\<rparr>
   \<and> procs supervised_world 1
       = Some \<lparr>exit_at = Some (seconds 3), term_delay = Some (seconds 1), termed_at = None,
               killed = False\<rparr>
   \<and> fst (cleanup supervised_world) = Inr ()
   \<and> clock (snd (cleanup supervised_world)) \<le> seconds 10 + seconds 5 * 3
   \<and> clock (snd (cleanup_loop [1, 2] supervised_world)) = seconds 11
   \<and> filter (concerns 3) (performed supervised_world (snd (cleanup supervised_world)))
       = [ProcPoll 3, ProcTerminate 3, ProcWait 3 5, ProcKill 3]
   \<and> filter (concerns 2) (performed supervised_world (snd (cleanup supervised_world)))
       = [ProcPoll 2, ProcTerminate 2, ProcWait 2 5]
   \<and> filter (concerns 1) (performed supervised_world (snd (cleanup supervised_world)))
       = [ProcPoll 1]
   \<and> performed supervised_world (snd (cleanup supervised_world))
       = [ProcPoll 1,
          ProcPoll 2, ProcTerminate 2, ProcWait 2 5,
          ProcPoll 3, ProcTerminate 3, ProcWait 3 5, ProcKill 3]"
proof -
  let ?p3 = "\<lparr>exit_at = None, term_delay = None, termed_at = None, killed = False\<rparr>"
  let ?p2 = "\<lparr>exit_at = None, term_delay = Some (seconds 1), termed_at = None, killed = False\<rparr>"
  let ?p1 = "\<lparr>exit_at = Some (seconds 3), term_delay = Some (seconds 1), termed_at = None,
               killed = False\<rparr>"
  have l3: "processes supervised_world = [1, 2] @ 3 # []"
    and l2: "processes supervised_world = [1] @ 2 # [3]"
    and l1: "processes supervised_world = [] @ 1 # [2, 3]"
    by (simp_all add: supervised_world_def empty_world_def)
  have d: "distinct (processes supervised_world)"
    by (simp add: supervised_world_def empty_world_def)
  have p3: "procs supervised_world 3 = Some ?p3"
    and p2: "procs supervised_world 2 = Some ?p2"
    and p1: "procs supervised_world 1 = Some ?p1"
    by (simp_all add: supervised_world_def empty_world_def)
  have c: "clock supervised_world = seconds 10" "length (processes supervised_world) = 3"
    by (simp_all add: supervised_world_def empty_world_def)
  have reached: "clock (snd (cleanup_loop [1, 2] supervised_world)) = seconds 11"
    by (simp add: cleanup_process_def proc_poll_def proc_terminate_def proc_wait_def
      proc_kill_def running_def proc_alive_def exit_time_def advance_def seconds_def
      io_defs supervised_world_def empty_world_def)
  have gone: "\<not> proc_alive ?p1 (clock supervised_world)"
    by (simp add: c proc_alive_def seconds_def)
  have always3: "proc_alive ?p3 t" "proc_alive (after_sigterm t ?p3) (t + seconds 5)" for t
    by (simp_all add: proc_alive_def after_sigterm_def)
  have always2: "proc_alive ?p2 t" "\<not> proc_alive (after_sigterm t ?p2) (t + seconds 5)" for t
    by (simp_all add: proc_alive_def after_sigterm_def seconds_def)
  from cleanup_stops_each_tracked_process[OF l3 d p3]
  have r3: "fst (cleanup supervised_world) = Inr ()"
    "clock (snd (cleanup supervised_world)) \<le> seconds 10 + seconds 5 * 3"
    "filter (concerns 3) (performed supervised_world (snd (cleanup supervised_world)))
       = [ProcPoll 3, ProcTerminate 3, ProcWait 3 5, ProcKill 3]"
    by (simp_all add: c always3 del: cleanup_loop.simps)
  from cleanup_stops_each_tracked_process[OF l2 d p2]
  have r2: "filter (concerns 2) (performed supervised_world (snd (cleanup supervised_world)))
       = [ProcPoll 2, ProcTerminate 2, ProcWait 2 5]"
    by (simp add: always2 del: cleanup_loop.simps)
  from cleanup_stops_each_tracked_process[OF l1 d p1] gone
  have r1: "filter (concerns 1) (performed supervised_world (snd (cleanup supervised_world)))
       = [ProcPoll 1]"
    by blast
  from l3 d p3 p2 p1 r3 reached r2 r1 supervised_cleanup show ?thesis by simp
qed

section \<open>The time to live of a cache entry\<close>

text \<open>
  \<^verbatim>\<open>download_file\<close> compares the age of an entry with
  \<^verbatim>\<open>timedelta(days=7)\<close>; the setting \<^verbatim>\<open>cache_ttl_days\<close> is read
  nowhere, so its value changes nothing.
\<close>

lemma download_file_ignores_cache_ttl_days:
  "download_file L (st\<lparr>cache_ttl_days := d\<rparr>) url dest_path expected_checksum
     = download_file L st url dest_path expected_checksum"
proof -
  have same: "fetch_to_dest (st\<lparr>cache_ttl_days := d\<rparr>) url dest_path = fetch_to_dest st url dest_path"
    by (simp add: fetch_to_dest_def)
  show ?thesis
    unfolding download_file_def download_body_def try_cache_or_fetch_def same ..
qed

text \<open>
  Claim C9 does not hold of the code. With \<^verbatim>\<open>cache_ttl_days\<close> set to one
  day, an entry that is two days old is still served from the cache, with no request.
\<close>

theorem configured_ttl_is_not_consulted:
  "cache_ttl_days (example_settings\<lparr>cache_ttl_days := 1\<rparr>) = 1
   \<and> dirents (days_later 2 cached_world) (cache_file example_dest) = Some 1
   \<and> json_loads example_lib (idata (days_later 2 cached_world) 2) = Some example_record
   \<and> fromisoformat example_lib ''1970-01-01T00:00:00'' = Some \<lparr>micros = 0, tz_aware = False\<rparr>
   \<and> clock (days_later 2 cached_world) - 0 = timedelta_days 2
   \<and> fst (download_file example_lib (example_settings\<lparr>cache_ttl_days := 1\<rparr>) example_url
            example_dest None (days_later 2 cached_world)) = Inr True
   \<and> performed (days_later 2 cached_world)
        (snd (download_file example_lib (example_settings\<lparr>cache_ttl_days := 1\<rparr>) example_url
            example_dest None (days_later 2 cached_world)))
      = [FsStat (cache_metadata_file example_lib example_url),
         FsRead (cache_metadata_file example_lib example_url),
         FsStat (cache_file example_dest),
         FsRename (cache_file example_dest) example_dest]"
  by (simp add: download_defs io_defs path_defs example_defs world_defs performed_def)

section \<open>Cancellation during a download\<close>

text \<open>
  Claim C10, as amended. Let a call of \<^verbatim>\<open>download_file\<close> begin with the flag
  clear and miss the cache (the look-up of lines 145-153 ends without a hit and without
  an exception), let the server answer, and let a signal arrive while the body is
  streamed, before some later chunk and with no transport error in between. Then the
  call returns \<^verbatim>\<open>False\<close> from inside the loop, so that neither verification
  nor any step that fills the cache runs: after the look-up the only actions are the
  request, the opening of the destination and writes to it. The directory differs
  from the one before the call at most in the entry of the destination path, and
  every file other than the one opened at the destination has the content it had. So
  the cache file and the metadata record are untouched whenever the destination is
  neither of them nor a hard link of one of them.
\<close>

theorem cancelled_download_touches_only_destination:
  assumes "\<not> kill_now w"
    and "bind_io (get_cache_metadata L url) (use_cache L dest_path) w = (Inr False, w1)"
    and "net w url = Response status len body"
    and "\<not> (400 \<le> status \<and> status < 600)"
    and "len \<noteq> BadLength"
    and "body = pre @ Signal # mid @ Chunk c # rest"
    and "Broken \<notin> set pre"
    and "Broken \<notin> set mid"
  shows "\<exists>w'. download_file L st url dest_path expected_checksum w = (Inr False, w')
     \<and> try_cache_or_fetch L st url dest_path w = (Inr (Returned False), w')
     \<and> (\<exists>es. performed w1 w' = HttpGet url (download_timeout st) # FsCreate dest_path # es
            \<and> (\<forall>e \<in> set es. \<exists>d. e = FsWrite dest_path d))
     \<and> dirents w' = (dirents w)(dest_path \<mapsto> opened_inode w dest_path)
     \<and> (\<forall>j. j \<noteq> opened_inode w dest_path \<longrightarrow> idata w' j = idata w j)"
proof -
  let ?f = "opened_inode w dest_path"
  from assms(2) obtain md wa where
    g: "get_cache_metadata L url w = (Inr md, wa)" and
    u: "use_cache L dest_path md wa = (Inr False, w1)"
    by (auto simp: bind_io_eq_Inr)
  have w1: "w1 = emit (FsStat (cache_file dest_path)) wa"
    using use_cache_miss_frame[of L dest_path md wa] u by simp
  note ga = get_cache_metadata_frame[OF g]
  have same: "dirents w1 = dirents w" "idata w1 = idata w" "next_ino w1 = next_ino w" "net w1 = net w"
    using ga by (simp_all add: w1)
  have oi: "opened_inode w1 dest_path = ?f"
    using same by (simp add: opened_inode_def split: option.splits)
  define wc where "wc = snd (fs_create dest_path (emit (HttpGet url (download_timeout st)) w1))"
  define w' where "w' = snd (write_chunks dest_path ?f body wc)"
  have f: "fetch_to_dest st url dest_path w1 = write_chunks dest_path ?f body wc"
    using fetch_to_dest_streams[of w1 url status len body st dest_path] assms(3,4,5) same oi
    by (simp add: wc_def)
  have "fst (write_chunks dest_path ?f body wc) = Inr False"
    unfolding assms(6) using assms(7,8) by (rule write_chunks_signalled)
  with f have f2: "fetch_to_dest st url dest_path w1 = (Inr False, w')"
    by (cases "write_chunks dest_path ?f body wc") (simp add: w'_def)
  have t: "try_cache_or_fetch L st url dest_path w = (Inr (Returned False), w')"
    using assms(1) g u f2 by (simp add: try_cache_or_fetch_def bind_io_def unit_io_def)
  then have r: "download_file L st url dest_path expected_checksum w = (Inr False, w')"
    by (simp add: download_file_def download_body_def bind_io_def unit_io_def)
  have dc: "dirents wc = (dirents w)(dest_path \<mapsto> ?f)" "idata wc = (idata w)(?f := [])"
    "trace wc = trace w1 @ [HttpGet url (download_timeout st), FsCreate dest_path]"
    using same oi by (simp_all add: wc_def)
  note fr = write_chunks_frame[of dest_path ?f body wc, folded w'_def]
  have d: "dirents w' = (dirents w)(dest_path \<mapsto> ?f)" using fr dc by simp
  have i: "\<forall>j. j \<noteq> ?f \<longrightarrow> idata w' j = idata w j" using fr dc by simp
  from fr dc obtain es where
    "trace w' = trace w1 @ HttpGet url (download_timeout st) # FsCreate dest_path # es"
    "\<forall>e \<in> set es. \<exists>d. e = FsWrite dest_path d"
    by auto
  then have "\<exists>es. performed w1 w' = HttpGet url (download_timeout st) # FsCreate dest_path # es
            \<and> (\<forall>e \<in> set es. \<exists>d. e = FsWrite dest_path d)"
    by (simp add: performed_def)
  with r t d i show ?thesis by blast
qed

theorem cancelled_download_touches_only_destination_witness:
  "\<not> kill_now interrupted_clean_world
   \<and> bind_io (get_cache_metadata example_lib example_url) (use_cache example_lib example_dest)
        interrupted_clean_world
       = (Inr False,
          interrupted_clean_world\<lparr>trace := trace interrupted_clean_world @
            [FsStat (cache_metadata_file example_lib example_url),
             FsRead (cache_metadata_file example_lib example_url),
             FsStat (cache_file example_dest)]\<rparr>)
   \<and> net interrupted_clean_world example_url
       = Response 200 NoLength ([Chunk ''inst''] @ Signal # [] @ Chunk ''aller'' # [])
   \<and> Broken \<notin> set [Chunk ''inst'']
   \<and> (\<exists>w'. download_file example_lib example_settings example_url example_dest None
              interrupted_clean_world = (Inr False, w')
         \<and> try_cache_or_fetch example_lib example_settings example_url example_dest
              interrupted_clean_world = (Inr (Returned False), w')
         \<and> dirents w' example_dest = Some 3
         \<and> dirents w' (cache_file example_dest) = Some 1
         \<and> idata w' 1 = ''installer''
         \<and> dirents w' (cache_metadata_file example_lib example_url) = Some 2
         \<and> idata w' 2 = ''record-0'')"
proof -
  let ?W = interrupted_clean_world
  let ?W1 = "?W\<lparr>trace := trace ?W @
            [FsStat (cache_metadata_file example_lib example_url),
             FsRead (cache_metadata_file example_lib example_url),
             FsStat (cache_file example_dest)]\<rparr>"
  have h1: "\<not> kill_now ?W" by (simp add: more_world_defs world_defs example_defs)
  have h2: "bind_io (get_cache_metadata example_lib example_url) (use_cache example_lib example_dest) ?W
       = (Inr False, ?W1)"
    by (simp add: download_defs io_defs path_defs example_defs world_defs more_world_defs)
  have h3: "net ?W example_url
       = Response 200 NoLength ([Chunk ''inst''] @ Signal # [] @ Chunk ''aller'' # [])"
    by (simp add: more_world_defs world_defs example_defs)
  have h4: "\<not> (400 \<le> (200::nat) \<and> (200::nat) < 600)" by simp
  have h5: "NoLength \<noteq> BadLength" by simp
  have h7: "Broken \<notin> set [Chunk ''inst'']" by simp
  have h8: "Broken \<notin> set []" by simp
  have o: "opened_inode ?W example_dest = 3"
    by (simp add: opened_inode_def more_world_defs world_defs example_defs path_defs)
  have ne: "cache_file example_dest \<noteq> example_dest"
    "cache_metadata_file example_lib example_url \<noteq> example_dest"
    by (simp_all add: example_defs path_defs)
  have before: "dirents ?W (cache_file example_dest) = Some 1" "idata ?W 1 = ''installer''"
    "dirents ?W (cache_metadata_file example_lib example_url) = Some 2" "idata ?W 2 = ''record-0''"
    by (simp_all add: more_world_defs world_defs example_defs path_defs)
  from cancelled_download_touches_only_destination[OF h1 h2 h3 h4 h5 refl h7 h8,
      of example_settings None, unfolded o]
  obtain w' where w':
    "download_file example_lib example_settings example_url example_dest None ?W = (Inr False, w')"
    "try_cache_or_fetch example_lib example_settings example_url example_dest ?W
       = (Inr (Returned False), w')"
    "dirents w' = (dirents ?W)(example_dest \<mapsto> 3)"
    "\<forall>j. j \<noteq> 3 \<longrightarrow> idata w' j = idata ?W j"
    by blast
  have "dirents w' example_dest = Some 3"
    "dirents w' (cache_file example_dest) = Some 1" "idata w' 1 = ''installer''"
    "dirents w' (cache_metadata_file example_lib example_url) = Some 2" "idata w' 2 = ''record-0''"
    using w'(3,4) ne before by simp_all
  with w'(1,2) h1 h2 h3 h7 show ?thesis by simp
qed

text \<open>
  The claim as stated fails on a destination that is a hard link of the cache file,
  as a successful download leaves it until the caller removes the destination: opening
  the destination for writing truncates the one file both paths name, and after the
  cancelled call the cache file holds the partial download.
\<close>

theorem cancelled_download_counterexample:
  "download_file example_lib example_settings example_url example_dest None first_world
     = (Inr True, linked_world)
   \<and> \<not> kill_now interrupted_world
   \<and> dirents interrupted_world (cache_file example_dest) = Some 1
   \<and> idata interrupted_world 1 = ''installer''
   \<and> net interrupted_world example_url
       = Response 200 NoLength [Chunk ''inst'', Signal, Chunk ''aller'']
   \<and> fst (download_file example_lib example_settings example_url example_dest None
            interrupted_world) = Inr False
   \<and> dirents (snd (download_file example_lib example_settings example_url example_dest None
                     interrupted_world)) (cache_file example_dest) = Some 1
   \<and> idata (snd (download_file example_lib example_settings example_url example_dest None
                   interrupted_world)) 1 = ''inst''"
proof -
  have "download_file example_lib example_settings example_url example_dest None interrupted_world
      = (Inr False,
         interrupted_world\<lparr>idata := (\<lambda>_. [])(1 := ''inst'', 2 := ''record-0''),
           kill_now := True,
           trace := trace interrupted_world @
            [FsStat (cache_metadata_file example_lib example_url),
             FsRead (cache_metadata_file example_lib example_url),
             FsStat (cache_file example_dest),
             HttpGet example_url 300,
             FsCreate example_dest,
             FsWrite example_dest ''inst'']\<rparr>)"
    by (simp add: download_defs io_defs path_defs example_defs world_defs more_world_defs
        fun_upd_twist)
  moreover have "\<not> kill_now interrupted_world"
    "dirents interrupted_world (cache_file example_dest) = Some 1"
    "idata interrupted_world 1 = ''installer''"
    "net interrupted_world example_url
       = Response 200 NoLength [Chunk ''inst'', Signal, Chunk ''aller'']"
    by (simp_all add: more_world_defs world_defs example_defs path_defs)
  ultimately show ?thesis using first_download by simp
qed

end
